theory Spec2Isabelle
  imports Complex_Main "HOL-Library.Char_ord" "HOL-Library.List_Lexorder"
begin

section \<open>Python values, dictionaries and exceptions\<close>

text \<open>
  The tools exchange dynamically typed values: argument dictionaries, lists of variable
  names, bounding boxes, members of the tools' string enumerations.  Numbers that went
  through \<open>floor_decimals\<close> or \<open>ceil_decimals\<close> are fractions; they are kept as exact
  rationals here.  A member of a \<open>(str, Enum)\<close> class carries its member name and its
  string value.  Dictionary keys are strings, as every key of an argument dictionary is.
\<close>

datatype pyval =
    VNone
  | VBool bool
  | VInt int
  | VNum rat
  | VStr string
  | VList "pyval list"
  | VDict "(string \<times> pyval) list"
  | VEnum string string

type_synonym pydict = "(string \<times> pyval) list"

datatype pyerror =
    KeyError string
  | ValueError
  | TypeError
  | IndexError
  | AttributeError

text \<open>
  A Python \<open>dict\<close> keeps insertion order: \<open>d[k] = v\<close> overwrites in place when the
  key exists and appends otherwise.
\<close>

fun setitem :: "('k \<times> 'v) list \<Rightarrow> 'k \<Rightarrow> 'v \<Rightarrow> ('k \<times> 'v) list" where
  "setitem [] k v = [(k, v)]"
| "setitem ((k', v') # d) k v = (if k' = k then (k, v) # d else (k', v') # setitem d k v)"

definition getitem :: "('k \<times> 'v) list \<Rightarrow> 'k \<Rightarrow> 'v option" where
  "getitem d k = map_of d k"

text \<open>\<open>d.update(other)\<close> for a dictionary \<open>other\<close>.\<close>

fun update_items :: "('k \<times> 'v) list \<Rightarrow> ('k \<times> 'v) list \<Rightarrow> ('k \<times> 'v) list" where
  "update_items d [] = d"
| "update_items d ((k, v) # other) = update_items (setitem d k v) other"

text \<open>
  \<open>repr\<close> of a list of plain identifiers, as an f-string prints it:
  \<open>['a', 'b']\<close>.
\<close>

fun join_with :: "string \<Rightarrow> string list \<Rightarrow> string" where
  "join_with sep [] = []"
| "join_with sep [s] = s"
| "join_with sep (s # t # ss) = s @ sep @ join_with sep (t # ss)"

definition repr_names :: "string list \<Rightarrow> string" where
  "repr_names names = ''['' @ join_with '', '' (map (\<lambda>s. [CHR 0x27] @ s @ [CHR 0x27]) names) @ '']''"


section \<open>Interrupts (\<open>base_tool_interrupt.py\<close>)\<close>

text \<open>
  \<open>BaseToolInterruptType\<close> is a plain class of string constants, so an interrupt type
  is a string; the four constants are the kinds the base tool raises.
\<close>

definition PROVIDE_ARGS :: string where "PROVIDE_ARGS = ''PROVIDE_ARGS''"
definition INVALID_ARGS :: string where "INVALID_ARGS = ''INVALID_ARGS''"
definition CONFIRM_ARGS :: string where "CONFIRM_ARGS = ''CONFIRM_ARGS''"
definition CONFIRM_OUTPUT :: string where "CONFIRM_OUTPUT = ''CONFIRM_OUTPUT''"

text \<open>
  A field of the pydantic argument schema: its default (\<open>None\<close> here when the field
  declares none, which is when \<open>is_required()\<close> holds) and its description.
\<close>

datatype field_info = Field (default: "pyval option") (description: string)

definition is_required :: "field_info \<Rightarrow> bool" where
  "is_required fld = (default fld = None)"

type_synonym schema = "(string \<times> field_info) list"

text \<open>
  The reason a validation rule returns is an f-string: it is kept as its literal text,
  with \<open>{}\<close> at each replacement field, and the values that are formatted into it.
\<close>

datatype reason = FString string "pyval list"

text \<open>The \<open>interrupt_data\<close> dictionary, one shape for each kind.\<close>

datatype interrupt_data =
    MissingArgs "string list" schema
  | InvalidArgs "(string \<times> reason) list" schema
  | ArgsToConfirm pydict schema
  | OutputToConfirm pydict pyval

record tool_interrupt =
  interrupt_tool :: string
  interrupt_type :: string
  interrupt_reason :: string
  interrupt_data :: interrupt_data

text \<open>
  What a call does: it returns, it raises a \<open>BaseToolInterrupt\<close>, or it raises any
  other exception.
\<close>

datatype 'a outcome = Return 'a | Interrupt tool_interrupt | Raise pyerror


section \<open>The base tool (\<open>base_agent_tool.py\<close>)\<close>

text \<open>
  The mutable fields of a tool instance.  \<open>world\<close> stands for everything else the
  execution body and the rules read and write: the graph state, the notebook database.
\<close>

record 'w tool_state =
  execution_confirmed :: bool
  output_confirmed :: bool
  tool_output :: pyval
  world :: 'w

type_synonym 'w validation_rule = "'w tool_state \<Rightarrow> pydict \<Rightarrow> pyerror + reason option"

type_synonym 'w inference_rule = "pydict \<Rightarrow> 'w tool_state \<Rightarrow> pyval outcome \<times> 'w tool_state"

text \<open>
  What a subclass supplies: its name and schema, the dictionaries returned by
  \<open>_set_args_validation_rules\<close> and \<open>_set_args_inference_rules\<close>, and \<open>_execute\<close>.
\<close>

record 'w agent_tool =
  name :: string
  args_schema :: schema
  args_validation_rules :: "(string \<times> 'w validation_rule list) list"
  args_inference_rules :: "(string \<times> 'w inference_rule option) list"
  execute :: "pydict \<Rightarrow> 'w tool_state \<Rightarrow> pyval outcome \<times> 'w tool_state"

subsection \<open>Step 1: required arguments\<close>

text \<open>
  The list comprehension of \<open>check_required_args\<close>: \<open>tool_args[arg]\<close> is read for the
  required fields only, and raises \<open>KeyError\<close> when the dictionary lacks the key.
\<close>

fun missing_args :: "schema \<Rightarrow> pydict \<Rightarrow> pyerror + string list" where
  "missing_args [] tool_args = Inr []"
| "missing_args ((arg, fld) # flds) tool_args =
     (if is_required fld then
        (case getitem tool_args arg of
           None \<Rightarrow> Inl (KeyError arg)
         | Some v \<Rightarrow>
             (case missing_args flds tool_args of
                Inl e \<Rightarrow> Inl e
              | Inr ms \<Rightarrow> Inr (if v = VNone then arg # ms else ms)))
      else missing_args flds tool_args)"

definition check_required_args ::
  "'w agent_tool \<Rightarrow> pydict \<Rightarrow> 'w tool_state \<Rightarrow> unit outcome \<times> 'w tool_state" where
  "check_required_args t tool_args st =
     (case missing_args (args_schema t) tool_args of
        Inl e \<Rightarrow> (Raise e, st)
      | Inr ms \<Rightarrow>
          if length ms > 0 then
            (Interrupt \<lparr> interrupt_tool = name t,
                         interrupt_type = PROVIDE_ARGS,
                         interrupt_reason = ''Missing required arguments: '' @ repr_names ms @ ''.'',
                         interrupt_data = MissingArgs ms (args_schema t) \<rparr>,
             st\<lparr> execution_confirmed := False \<rparr>)
          else (Return (), st))"

subsection \<open>Step 2: validation rules\<close>

text \<open>
  The inner loop over the rules of one argument.  The \<open>continue\<close> that follows the
  assignment is the last statement of the loop body, so the loop goes on to the next
  rule of the same argument and a later reason overwrites an earlier one.
\<close>

fun apply_rules ::
  "'w validation_rule list \<Rightarrow> 'w tool_state \<Rightarrow> pydict \<Rightarrow> string \<Rightarrow>
   (string \<times> reason) list \<Rightarrow> pyerror + (string \<times> reason) list" where
  "apply_rules [] st tool_args arg invalid_args = Inr invalid_args"
| "apply_rules (rule # rules) st tool_args arg invalid_args =
     (case rule st tool_args of
        Inl e \<Rightarrow> Inl e
      | Inr None \<Rightarrow> apply_rules rules st tool_args arg invalid_args
      | Inr (Some invalid_reason) \<Rightarrow>
          apply_rules rules st tool_args arg (setitem invalid_args arg invalid_reason))"

text \<open>\<open>args_validation_rules.get(arg, [])\<close>\<close>

definition rules_of :: "(string \<times> 'r list) list \<Rightarrow> string \<Rightarrow> 'r list" where
  "rules_of rules arg = (case getitem rules arg of None \<Rightarrow> [] | Some rs \<Rightarrow> rs)"

fun collect_invalid ::
  "schema \<Rightarrow> (string \<times> 'w validation_rule list) list \<Rightarrow> 'w tool_state \<Rightarrow> pydict \<Rightarrow>
   (string \<times> reason) list \<Rightarrow> pyerror + (string \<times> reason) list" where
  "collect_invalid [] rules st tool_args invalid_args = Inr invalid_args"
| "collect_invalid ((arg, fld) # flds) rules st tool_args invalid_args =
     (case apply_rules (rules_of rules arg) st tool_args arg invalid_args of
        Inl e \<Rightarrow> Inl e
      | Inr invalid_args' \<Rightarrow> collect_invalid flds rules st tool_args invalid_args')"

definition check_validation_rules ::
  "'w agent_tool \<Rightarrow> pydict \<Rightarrow> 'w tool_state \<Rightarrow> unit outcome \<times> 'w tool_state" where
  "check_validation_rules t tool_args st =
     (case collect_invalid (args_schema t) (args_validation_rules t) st tool_args [] of
        Inl e \<Rightarrow> (Raise e, st)
      | Inr invalid_args \<Rightarrow>
          if length invalid_args > 0 then
            (Interrupt \<lparr> interrupt_tool = name t,
                         interrupt_type = INVALID_ARGS,
                         interrupt_reason = ''Invalid arguments: '' @ repr_names (map fst invalid_args) @ ''.'',
                         interrupt_data = InvalidArgs invalid_args (args_schema t) \<rparr>,
             st\<lparr> execution_confirmed := False \<rparr>)
          else (Return (), st))"

subsection \<open>Step 3: inference\<close>

text \<open>
  \<open>infer_args\<close> walks the schema in declaration order and stores each rule's result in
  \<open>tool_args\<close> at once, so a later rule reads the values inferred before it.  Nothing
  catches what a rule raises.
\<close>

definition inference_rule_of ::
  "(string \<times> 'w inference_rule option) list \<Rightarrow> string \<Rightarrow> 'w inference_rule option" where
  "inference_rule_of rules arg = (case getitem rules arg of None \<Rightarrow> None | Some r \<Rightarrow> r)"

fun infer_fields ::
  "schema \<Rightarrow> (string \<times> 'w inference_rule option) list \<Rightarrow> pydict \<Rightarrow> 'w tool_state \<Rightarrow>
   pydict outcome \<times> 'w tool_state" where
  "infer_fields [] rules tool_args st = (Return tool_args, st)"
| "infer_fields ((arg, fld) # flds) rules tool_args st =
     (case inference_rule_of rules arg of
        None \<Rightarrow> infer_fields flds rules tool_args st
      | Some rule \<Rightarrow>
          (case rule tool_args st of
             (Return v, st') \<Rightarrow> infer_fields flds rules (setitem tool_args arg v) st'
           | (Interrupt i, st') \<Rightarrow> (Interrupt i, st')
           | (Raise e, st') \<Rightarrow> (Raise e, st')))"

definition infer_args ::
  "'w agent_tool \<Rightarrow> pydict \<Rightarrow> 'w tool_state \<Rightarrow> pydict outcome \<times> 'w tool_state" where
  "infer_args t tool_args st = infer_fields (args_schema t) (args_inference_rules t) tool_args st"

subsection \<open>Steps 4 and 6: confirmations\<close>

definition confirm_args ::
  "'w agent_tool \<Rightarrow> pydict \<Rightarrow> 'w tool_state \<Rightarrow> unit outcome \<times> 'w tool_state" where
  "confirm_args t tool_args st =
     (if \<not> execution_confirmed st then
        (Interrupt \<lparr> interrupt_tool = name t,
                     interrupt_type = CONFIRM_ARGS,
                     interrupt_reason = ''Please confirm the execution of the tool with the provided arguments.'',
                     interrupt_data = ArgsToConfirm tool_args (args_schema t) \<rparr>, st)
      else (Return (), st))"

definition confirm_ouputs ::
  "'w agent_tool \<Rightarrow> pydict \<Rightarrow> 'w tool_state \<Rightarrow> unit outcome \<times> 'w tool_state" where
  "confirm_ouputs t tool_args st =
     (if \<not> output_confirmed st then
        (Interrupt \<lparr> interrupt_tool = name t,
                     interrupt_type = CONFIRM_OUTPUT,
                     interrupt_reason = ''A user confirmation of the ouput is required.'',
                     interrupt_data = OutputToConfirm tool_args (tool_output st) \<rparr>, st)
      else (Return (), st))"

subsection \<open>\<open>_run\<close>\<close>

text \<open>Sequencing: an interrupt or an exception of the first step ends the call.\<close>

definition and_then ::
  "'a outcome \<times> 's \<Rightarrow> ('a \<Rightarrow> 's \<Rightarrow> 'b outcome \<times> 's) \<Rightarrow> 'b outcome \<times> 's" where
  "and_then r f =
     (case r of
        (Return x, st) \<Rightarrow> f x st
      | (Interrupt i, st) \<Rightarrow> (Interrupt i, st)
      | (Raise e, st) \<Rightarrow> (Raise e, st))"

text \<open>
  \<open>_run\<close>: the four controls before the execution, the execution body, whose result is
  stored in \<open>self.output\<close>, the control after it, and the return of \<open>self.output\<close>.
  The body is called on every pass that gets through the first four controls.
\<close>

definition controls_before_execution ::
  "'w agent_tool \<Rightarrow> pydict \<Rightarrow> 'w tool_state \<Rightarrow> pydict outcome \<times> 'w tool_state" where
  "controls_before_execution t tool_args st =
     and_then (check_required_args t tool_args st) (\<lambda>_ st1.
     and_then (check_validation_rules t tool_args st1) (\<lambda>_ st2.
     and_then (infer_args t tool_args st2) (\<lambda>tool_args' st3.
     and_then (confirm_args t tool_args' st3) (\<lambda>_ st4. (Return tool_args', st4)))))"

definition run ::
  "'w agent_tool \<Rightarrow> pydict \<Rightarrow> 'w tool_state \<Rightarrow> pyval outcome \<times> 'w tool_state" where
  "run t tool_args st =
     and_then (controls_before_execution t tool_args st) (\<lambda>tool_args' st4.
     and_then (execute t tool_args' st4) (\<lambda>out st5.
     and_then (confirm_ouputs t tool_args' (st5\<lparr> tool_output := out \<rparr>)) (\<lambda>_ st6.
       (Return (tool_output st6), st6))))"


text \<open>
  \<open>tool.invoke(tool_call['args'])\<close> reaches \<open>_run\<close> through the subclass wrapper, which
  builds \<open>tool_args\<close> with one entry for each schema field, in declaration order: the
  value of the call, or the field's default when the call omits it.  A call that omits a
  field without default does not get as far as \<open>_run\<close>.
\<close>

fun build_tool_args :: "schema \<Rightarrow> pydict \<Rightarrow> pyerror + pydict" where
  "build_tool_args [] call_args = Inr []"
| "build_tool_args ((arg, fld) # flds) call_args =
     (case (case getitem call_args arg of Some v \<Rightarrow> Some v | None \<Rightarrow> default fld) of
        None \<Rightarrow> Inl TypeError
      | Some v \<Rightarrow>
          (case build_tool_args flds call_args of
             Inl e \<Rightarrow> Inl e
           | Inr tool_args \<Rightarrow> Inr ((arg, v) # tool_args)))"

definition invoke ::
  "'w agent_tool \<Rightarrow> pydict \<Rightarrow> 'w tool_state \<Rightarrow> pyval outcome \<times> 'w tool_state" where
  "invoke t call_args st =
     (case build_tool_args (args_schema t) call_args of
        Inl e \<Rightarrow> (Raise e, st)
      | Inr tool_args \<Rightarrow> run t tool_args st)"


section \<open>Conversation state and routing directives\<close>

record tool_call =
  call_name :: string
  call_args :: pydict
  call_id :: string

text \<open>
  The message that carries the pending tool calls, and the other messages of a
  conversation.  A \<open>SystemMessage\<close> or tool-result message made by a node has no
  identifier yet.
\<close>

record tool_message =
  message_id :: string
  tool_calls :: "tool_call list"

datatype message =
    AIMessage tool_message
  | ToolResponse string pyval string
  | SystemMessage string
  | OtherMessage string
  | RemoveMessage string

fun ident :: "message \<Rightarrow> string option" where
  "ident (AIMessage m) = Some (message_id m)"
| "ident (OtherMessage i) = Some i"
| "ident (RemoveMessage i) = Some i"
| "ident (ToolResponse n c i) = None"
| "ident (SystemMessage content) = None"

text \<open>
  An entry of \<open>node_params\<close>: the Suspend Context written by the tool handler for the
  interrupt node (\<open>tool_message\<close>, \<open>tool_interrupt\<close>, \<open>tool_handler_node\<close>), or the
  messages left for \<open>chatbot_update_messages\<close>.
\<close>

datatype node_param =
    SuspendContext tool_message tool_interrupt string
  | UpdateMessages "message list"

record graph_state =
  messages :: "message list"
  node_params :: "(string \<times> node_param) list"

text \<open>
  What a node returns: the next node and the state patch.  \<open>upd_node_params\<close> is
  \<open>None\<close> when the patch has no \<open>node_params\<close> entry.
\<close>

record directive =
  goto :: string
  upd_messages :: "message list"
  upd_node_params :: "(string \<times> node_param) list option"

definition END :: string where "END = ''__end__''"

definition CHATBOT_UPDATE_MESSAGES :: string where
  "CHATBOT_UPDATE_MESSAGES = ''chatbot_update_messages''"

text \<open>
  How the graph library applies a patch to \<open>BaseGraphState\<close>: \<open>messages\<close> goes through
  the \<open>add_messages\<close> reducer of \<open>MessagesState\<close> (a \<open>RemoveMessage\<close> deletes the message
  with its identifier, a message whose identifier is already present replaces it, any
  other message is appended); \<open>node_params\<close> is declared without a reducer, so a patch
  that has the key overwrites the whole dictionary.
\<close>

fun replace_message :: "message list \<Rightarrow> message \<Rightarrow> message list" where
  "replace_message [] m = []"
| "replace_message (m' # ms) m =
     (if ident m' = ident m then m # ms else m' # replace_message ms m)"

definition add_message :: "message list \<Rightarrow> message \<Rightarrow> message list" where
  "add_message ms m =
     (case m of
        RemoveMessage i \<Rightarrow> filter (\<lambda>m'. ident m' \<noteq> Some i) ms
      | _ \<Rightarrow>
          (if ident m \<noteq> None \<and> ident m \<in> set (map ident ms)
           then replace_message ms m else ms @ [m]))"

definition add_messages :: "message list \<Rightarrow> message list \<Rightarrow> message list" where
  "add_messages left right = foldl add_message left right"

definition apply_directive :: "graph_state \<Rightarrow> directive \<Rightarrow> graph_state" where
  "apply_directive state d =
     \<lparr> messages = add_messages (messages state) (upd_messages d),
       node_params = (case upd_node_params d of None \<Rightarrow> node_params state | Some np \<Rightarrow> np) \<rparr>"


section \<open>The tool handler node (\<open>base_tool_handler_node.py\<close>)\<close>

text \<open>
  A node is set up with the two node names and the tool registry.  The registry maps a
  tool name to a tool object: what its class defines, and the current values of its
  mutable fields.  The two nodes of a sub-flow share one registry, and a call of a node
  returns the registry with the fields as the call left them.
\<close>

record node_names =
  tool_handler_node_name :: string
  tool_interrupt_node_name :: string

type_synonym 'w registry = "(string \<times> 'w agent_tool \<times> 'w tool_state) list"

definition last_item :: "'a list \<Rightarrow> pyerror + 'a" where
  "last_item xs = (if xs = [] then Inl IndexError else Inr (last xs))"

definition as_tool_message :: "message \<Rightarrow> pyerror + tool_message" where
  "as_tool_message m = (case m of AIMessage tm \<Rightarrow> Inr tm | _ \<Rightarrow> Inl AttributeError)"

text \<open>
  \<open>tool_handler_template\<close>.  Only \<open>BaseToolInterrupt\<close> is caught: a \<open>KeyError\<close> of the
  registry lookup, like any other exception of the tool, leaves the node.  On success
  the patch carries the tool-result message and \<open>additional_ouput_state\<close>, which every
  sub-flow sets to an empty \<open>node_params\<close>.
\<close>

definition tool_handler ::
  "node_names \<Rightarrow> 'w registry \<Rightarrow> graph_state \<Rightarrow> directive outcome \<times> 'w registry" where
  "tool_handler node tools state =
     (case last_item (messages state) of
        Inl e \<Rightarrow> (Raise e, tools)
      | Inr m \<Rightarrow>
     (case as_tool_message m of
        Inl e \<Rightarrow> (Raise e, tools)
      | Inr tool_message \<Rightarrow>
     (case last_item (tool_calls tool_message) of
        Inl e \<Rightarrow> (Raise e, tools)
      | Inr tool_call \<Rightarrow>
     (case getitem tools (call_name tool_call) of
        None \<Rightarrow> (Raise (KeyError (call_name tool_call)), tools)
      | Some (t, st) \<Rightarrow>
          (case invoke t (call_args tool_call) st of
             (Interrupt tool_interrupt, st') \<Rightarrow>
               (Return \<lparr> goto = tool_interrupt_node_name node,
                          upd_messages = [],
                          upd_node_params = Some [(tool_interrupt_node_name node,
                             SuspendContext tool_message tool_interrupt (tool_handler_node_name node))] \<rparr>,
                setitem tools (call_name tool_call) (t, st'))
           | (Raise e, st') \<Rightarrow> (Raise e, setitem tools (call_name tool_call) (t, st'))
           | (Return result, st') \<Rightarrow>
               (Return \<lparr> goto = END,
                          upd_messages = [ToolResponse (call_name tool_call) result (call_id tool_call)],
                          upd_node_params = Some [] \<rparr>,
                setitem tools (call_name tool_call) (t, st')))))))"


section \<open>The interrupt handlers (\<open>base_tool_interrupt_handler_node.py\<close>)\<close>

subsection \<open>The language model's answer (\<open>utils.ask_llm\<close>)\<close>

text \<open>
  \<open>ask_llm\<close> with \<open>eval_output\<close>: the body of the \<open>try\<close> block (dropping a code fence,
  then \<open>ast.literal_eval\<close>) is the parameter \<open>parse\<close>, which is \<open>None\<close> when that body
  raises.  The bare \<open>except\<close> passes, and the function falls through to returning the
  raw text of the answer.
\<close>

definition ask_llm :: "(string \<Rightarrow> pyval option) \<Rightarrow> string \<Rightarrow> bool \<Rightarrow> pyval" where
  "ask_llm parse content eval_output =
     (if eval_output then
        (case parse content of Some v \<Rightarrow> v | None \<Rightarrow> VStr content)
      else VStr content)"

subsection \<open>\<open>dict.update\<close> with what the model answered\<close>

text \<open>
  \<open>args.update(x)\<close> for an arbitrary value: a dictionary is merged; any other iterable
  must yield pairs, so a non-empty string raises \<open>ValueError\<close> (its items are single
  characters) and an empty one changes nothing; a value that is not iterable raises
  \<open>TypeError\<close>.  For a list of pairs the model covers string keys; a pair keyed by a
  number, a boolean or \<open>None\<close> would add a key that is not a string, which the
  dictionaries here do not represent, so the result is left unspecified there.
\<close>

fun pair_of :: "pyval \<Rightarrow> pyerror + (string \<times> pyval)" where
  "pair_of (VList [VStr k, v]) = Inr (k, v)"
| "pair_of (VList [VEnum n k, v]) = Inr (k, v)"
| "pair_of (VList [VList k, v]) = Inl TypeError"
| "pair_of (VList [VDict k, v]) = Inl TypeError"
| "pair_of (VList [k, v]) = undefined"
| "pair_of (VList xs) = Inl ValueError"
| "pair_of (VStr [c, c']) = Inr ([c], VStr [c'])"
| "pair_of (VStr s) = Inl ValueError"
| "pair_of (VEnum n [c, c']) = Inr ([c], VStr [c'])"
| "pair_of (VEnum n s) = Inl ValueError"
| "pair_of (VDict [(k, v), (k', v')]) = Inr (k, VStr k')"
| "pair_of (VDict d) = Inl ValueError"
| "pair_of v = Inl TypeError"

fun update_pairs :: "pydict \<Rightarrow> pyval list \<Rightarrow> pyerror + pydict" where
  "update_pairs d [] = Inr d"
| "update_pairs d (x # xs) =
     (case pair_of x of Inl e \<Rightarrow> Inl e | Inr (k, v) \<Rightarrow> update_pairs (setitem d k v) xs)"

fun dict_update :: "pydict \<Rightarrow> pyval \<Rightarrow> pyerror + pydict" where
  "dict_update d (VDict other) = Inr (update_items d other)"
| "dict_update d (VList xs) = update_pairs d xs"
| "dict_update d (VStr s) = update_pairs d (map (\<lambda>c. VStr [c]) s)"
| "dict_update d (VEnum n s) = update_pairs d (map (\<lambda>c. VStr [c]) s)"
| "dict_update d v = Inl TypeError"


subsection \<open>The four strategies\<close>

text \<open>
  What reaches a strategy from outside during one call of \<open>handle\<close>: the human's reply
  (the \<open>response\<close> entry of the resume value, if it has one), the language model's
  answer to the interpretation prompt, and its answer to the prompt of
  \<open>_generate_provided_output\<close>.  The text of the prompts and of the question put to the
  human is not modelled.
\<close>

record human_turn =
  response :: "string option"
  llm_interpretation :: string
  llm_update_inputs :: string

definition response_text :: "human_turn \<Rightarrow> string" where
  "response_text turn =
     (case response turn of None \<Rightarrow> ''User did not provide any response.'' | Some r \<Rightarrow> r)"

datatype handler =
    ProvideArgsHandler
  | InvalidArgsHandler
  | ArgsConfirmationHandler
  | OutputConfirmationHandler
  | CodeEditorOutputConfirmationHandler

text \<open>
  \<open>_generate_interrupt_message\<close> reads the interrupt data of its own kind and fails on
  another shape (the first two read \<open>missing_args\<close> and \<open>invalid_args\<close> once for each
  field of the schema); the output handlers call \<open>.items()\<close> on the output, which
  only a dictionary has.
\<close>

fun generate_interrupt_message :: "handler \<Rightarrow> interrupt_data \<Rightarrow> pyerror option" where
  "generate_interrupt_message ProvideArgsHandler (MissingArgs ms sch) = None"
| "generate_interrupt_message ProvideArgsHandler (InvalidArgs bad sch) =
     (if sch = [] then None else Some (KeyError ''missing_args''))"
| "generate_interrupt_message ProvideArgsHandler _ = Some (KeyError ''args_schema'')"
| "generate_interrupt_message InvalidArgsHandler (InvalidArgs bad sch) = None"
| "generate_interrupt_message InvalidArgsHandler (MissingArgs ms sch) =
     (if sch = [] then None else Some (KeyError ''invalid_args''))"
| "generate_interrupt_message InvalidArgsHandler _ = Some (KeyError ''args_schema'')"
| "generate_interrupt_message ArgsConfirmationHandler (ArgsToConfirm args sch) = None"
| "generate_interrupt_message ArgsConfirmationHandler (OutputToConfirm args out) = None"
| "generate_interrupt_message ArgsConfirmationHandler _ = Some (KeyError ''args'')"
| "generate_interrupt_message h (OutputToConfirm args (VDict out)) = None"
| "generate_interrupt_message h (OutputToConfirm args out) = Some AttributeError"
| "generate_interrupt_message h _ = Some (KeyError ''output'')"

text \<open>The branch every strategy takes when the human asked to leave the tool process.\<close>

definition exit_directive :: "tool_message \<Rightarrow> string \<Rightarrow> directive" where
  "exit_directive tm resp =
     (let remove_tool_message = RemoveMessage (message_id tm);
          system_message = SystemMessage (''User choose to exit the tool process with this response: '' @ resp)
      in \<lparr> goto = END,
           upd_messages = [remove_tool_message, system_message],
           upd_node_params = Some [(CHATBOT_UPDATE_MESSAGES,
                                    UpdateMessages [remove_tool_message, system_message])] \<rparr>)"

text \<open>\<open>self.tool_message.tool_calls[-1]["args"].update(x)\<close>, then back to the tool handler.\<close>

definition update_last_call :: "tool_message \<Rightarrow> pyval \<Rightarrow> pyerror + tool_message" where
  "update_last_call tm x =
     (case last_item (tool_calls tm) of
        Inl e \<Rightarrow> Inl e
      | Inr c \<Rightarrow>
          (case dict_update (call_args c) x of
             Inl e \<Rightarrow> Inl e
           | Inr args' \<Rightarrow> Inr (tm\<lparr> tool_calls := butlast (tool_calls tm) @ [c\<lparr> call_args := args' \<rparr>] \<rparr>)))"

definition resume_directive :: "string \<Rightarrow> tool_message \<Rightarrow> directive" where
  "resume_directive tool_handler_node tm =
     \<lparr> goto = tool_handler_node, upd_messages = [AIMessage tm], upd_node_params = None \<rparr>"

text \<open>
  \<open>_generate_provided_args\<close> and \<open>_classify_output_confirmation\<close>: the answer of the
  model to the interpretation prompt.  The strategy for invalid arguments builds its
  prompt from the arguments of \<open>tool_calls[-1]\<close> of the pending message, which raises
  \<open>IndexError\<close> on a message without tool calls; the other strategies build theirs
  from the interrupt data that \<open>_generate_interrupt_message\<close> has read already.
\<close>

definition generate_provided_args ::
  "handler \<Rightarrow> (string \<Rightarrow> pyval option) \<Rightarrow> human_turn \<Rightarrow> tool_message \<Rightarrow> pyerror + pyval" where
  "generate_provided_args h parse turn tm =
     (if h = InvalidArgsHandler then
        (case last_item (tool_calls tm) of
           Inl e \<Rightarrow> Inl e
         | Inr c \<Rightarrow> Inr (ask_llm parse (llm_interpretation turn) True))
      else Inr (ask_llm parse (llm_interpretation turn) True))"

text \<open>
  \<open>handle\<close> of the strategies.  The three argument strategies leave on \<open>None\<close> only and
  give everything else to \<open>update\<close>; the output strategies compare the answer with
  \<open>True\<close> and with \<open>False\<close> by identity and leave in every other case.  The strategy of
  the code editor overrides the prompt of \<open>_generate_provided_output\<close> only.
\<close>

definition handle ::
  "handler \<Rightarrow> (string \<Rightarrow> pyval option) \<Rightarrow> human_turn \<Rightarrow> tool_message \<Rightarrow> tool_interrupt \<Rightarrow>
   string \<Rightarrow> 'w tool_state \<Rightarrow> directive outcome \<times> 'w tool_state" where
  "handle h parse turn tm tool_interrupt tool_handler_node st =
     (case generate_interrupt_message h (interrupt_data tool_interrupt) of
        Some e \<Rightarrow> (Raise e, st)
      | None \<Rightarrow>
     (case generate_provided_args h parse turn tm of
        Inl e \<Rightarrow> (Raise e, st)
      | Inr provided \<Rightarrow>
          (let resp = response_text turn
           in if h = ProvideArgsHandler \<or> h = InvalidArgsHandler \<or> h = ArgsConfirmationHandler then
                (if provided = VNone then (Return (exit_directive tm resp), st)
                 else
                   (case update_last_call tm provided of
                      Inl e \<Rightarrow> (Raise e, st)
                    | Inr tm' \<Rightarrow>
                        (Return (resume_directive tool_handler_node tm'),
                         if h = ArgsConfirmationHandler then st\<lparr> execution_confirmed := True \<rparr> else st)))
              else
                (if provided = VBool True then
                   (Return (resume_directive tool_handler_node tm), st\<lparr> output_confirmed := True \<rparr>)
                 else if provided = VBool False then
                   (case update_last_call tm (ask_llm parse (llm_update_inputs turn) True) of
                      Inl e \<Rightarrow> (Raise e, st)
                    | Inr tm' \<Rightarrow>
                        (Return (resume_directive tool_handler_node tm'), st\<lparr> output_confirmed := False \<rparr>))
                 else (Return (exit_directive tm resp), st)))))"

subsection \<open>The interrupt node\<close>

text \<open>
  \<open>tool_interupt_handlers\<close> is an attribute of the class \<open>BaseToolInterruptNode\<close>: one
  dictionary for all nodes.  \<open>__init__\<close> calls \<open>update\<close> on it through \<open>self\<close>, which
  changes that one dictionary, and the node function reads it through \<open>self\<close> when it
  runs.  The dictionary is therefore a global that the constructor takes and returns.
\<close>

type_synonym handlers_table = "(string \<times> handler) list"

definition tool_interupt_handlers :: handlers_table where
  "tool_interupt_handlers =
     [(PROVIDE_ARGS, ProvideArgsHandler),
      (INVALID_ARGS, InvalidArgsHandler),
      (CONFIRM_ARGS, ArgsConfirmationHandler),
      (CONFIRM_OUTPUT, OutputConfirmationHandler)]"

definition BaseToolInterruptNode ::
  "string \<Rightarrow> string \<Rightarrow> handlers_table \<Rightarrow> handlers_table \<Rightarrow> node_names \<times> handlers_table" where
  "BaseToolInterruptNode handler_name interrupt_name custom_tool_interupt_handlers class_table =
     (\<lparr> tool_handler_node_name = handler_name, tool_interrupt_node_name = interrupt_name \<rparr>,
      update_items class_table custom_tool_interupt_handlers)"

text \<open>
  \<open>tool_interrupt_node_template\<close>: three dictionary lookups, none of them guarded, then
  the strategy's \<open>handle\<close>.
\<close>

definition tool_interrupt_node ::
  "node_names \<Rightarrow> handlers_table \<Rightarrow> (string \<Rightarrow> pyval option) \<Rightarrow> human_turn \<Rightarrow>
   'w registry \<Rightarrow> graph_state \<Rightarrow> directive outcome \<times> 'w registry" where
  "tool_interrupt_node node class_table parse turn tools state =
     (case getitem (node_params state) (tool_interrupt_node_name node) of
        None \<Rightarrow> (Raise (KeyError (tool_interrupt_node_name node)), tools)
      | Some (UpdateMessages ms) \<Rightarrow> (Raise (KeyError ''tool_interrupt''), tools)
      | Some (SuspendContext tm tool_interrupt tool_handler_node) \<Rightarrow>
          (case getitem tools (interrupt_tool tool_interrupt) of
             None \<Rightarrow> (Raise (KeyError (interrupt_tool tool_interrupt)), tools)
           | Some (t, st) \<Rightarrow>
               (case getitem class_table (interrupt_type tool_interrupt) of
                  None \<Rightarrow> (Raise (KeyError (interrupt_type tool_interrupt)), tools)
                | Some h \<Rightarrow>
                    (case handle h parse turn tm tool_interrupt tool_handler_node st of
                       (r, st') \<Rightarrow> (r, setitem tools (interrupt_tool tool_interrupt) (t, st'))))))"


section \<open>The tools\<close>

subsection \<open>The base class used as a tool\<close>

text \<open>
  What \<open>BaseAgentTool\<close> itself defines: no validation rule and no inference rule for any
  argument, an execution body that returns \<open>None\<close> and touches nothing, and the two
  confirmation flags initially false.
\<close>

definition base_agent_tool :: "string \<Rightarrow> schema \<Rightarrow> 'w agent_tool" where
  "base_agent_tool nm sch =
     \<lparr> name = nm,
       args_schema = sch,
       args_validation_rules = map (\<lambda>(arg, fld). (arg, [])) sch,
       args_inference_rules = map (\<lambda>(arg, fld). (arg, None)) sch,
       execute = (\<lambda>tool_args st. (Return VNone, st)) \<rparr>"

definition base_agent_tool_init :: "'w \<Rightarrow> 'w tool_state" where
  "base_agent_tool_init w =
     \<lparr> execution_confirmed = False, output_confirmed = False, tool_output = VNone, world = w \<rparr>"

subsection \<open>String helpers\<close>

definition startswith :: "string \<Rightarrow> string \<Rightarrow> bool" where
  "startswith s pre = (take (length pre) s = pre)"

definition endswith :: "string \<Rightarrow> string \<Rightarrow> bool" where
  "endswith s suf = (length suf \<le> length s \<and> drop (length s - length suf) s = suf)"

text \<open>\<open>sub in s\<close> for strings.\<close>

fun contains :: "string \<Rightarrow> string \<Rightarrow> bool" where
  "contains [] sub = (sub = [])"
| "contains (c # cs) sub = (startswith (c # cs) sub \<or> contains cs sub)"

text \<open>
  \<open>s.split(sep)[0]\<close> and the rest of \<open>s\<close> after the first \<open>sep\<close>, for a separator that
  is not empty.
\<close>

fun before :: "string \<Rightarrow> string \<Rightarrow> string" where
  "before [] sep = []"
| "before (c # cs) sep = (if startswith (c # cs) sep then [] else c # before cs sep)"

fun after :: "string \<Rightarrow> string \<Rightarrow> string" where
  "after [] sep = []"
| "after (c # cs) sep = (if startswith (c # cs) sep then drop (length sep) (c # cs) else after cs sep)"

subsection \<open>\<open>CodeEditorTool\<close> (\<open>code_editor_tool.py\<close>)\<close>

text \<open>
  The world of the code editor: the notebooks of the user in the database, each a list
  of cells (cell type and source), and the code the language model writes for a request
  and the code already in the notebook.
\<close>

type_synonym notebook = "(string \<times> string) list"

record code_editor_world =
  notebooks :: "(string \<times> notebook) list"
  llm_code :: "pyval \<Rightarrow> string list \<Rightarrow> string"

definition notebook_by_name :: "code_editor_world \<Rightarrow> pyval \<Rightarrow> notebook option" where
  "notebook_by_name w notebook_name =
     (case notebook_name of VStr n \<Rightarrow> getitem (notebooks w) n | _ \<Rightarrow> None)"

definition get_source_code :: "notebook \<Rightarrow> string list" where
  "get_source_code cells =
     map snd (filter (\<lambda>(cell_type, source). cell_type = ''code'' \<and> source \<noteq> []) cells)"

text \<open>
  \<open>add_source_code\<close>: a leading code fence is dropped, the code becomes a new code cell
  and the notebook is saved.
\<close>

definition fence :: string where
  "fence = [CHR 0x60, CHR 0x60, CHR 0x60] @ ''python'' @ [CHR 0x0A]"

definition fence_end :: string where
  "fence_end = [CHR 0x0A, CHR 0x60, CHR 0x60, CHR 0x60]"

definition add_source_code :: "code_editor_world \<Rightarrow> string \<Rightarrow> notebook \<Rightarrow> string \<Rightarrow> code_editor_world" where
  "add_source_code w n cells source_code =
     (let code = (if startswith source_code fence
                  then before (before (after source_code fence) fence) fence_end
                  else source_code)
      in w\<lparr> notebooks := setitem (notebooks w) n (cells @ [(''code'', code)]) \<rparr>)"

definition code_editor_schema :: schema where
  "code_editor_schema =
     [(''source'', Field (Some VNone)
        ''The filename of the code file to be edited. It is only filename.ext, without any other parent path. It could be a python notebbok, a script.py. If not specified use None as default.''),
      (''code_request'', Field None ''Meaning and usefulness of the requested code'')]"

definition code_editor_source_rule :: "code_editor_world validation_rule" where
  "code_editor_source_rule st ka =
     (case getitem ka ''source'' of
        None \<Rightarrow> Inl (KeyError ''source'')
      | Some source \<Rightarrow>
          Inr (if notebook_by_name (world st) source = None
               then Some (FString ''Invalid source: {}. It should be the name of a notebook uploaded on databse.'' [source])
               else None))"

text \<open>
  \<open>_execute\<close>.  Without a confirmed output it only asks the model for code; with a
  confirmed output it takes the code of the stored output and writes it into the
  notebook.  Either way it ends by setting \<open>output_confirmed\<close> to false.
\<close>

definition code_editor_execute ::
  "pydict \<Rightarrow> code_editor_world tool_state \<Rightarrow> pyval outcome \<times> code_editor_world tool_state" where
  "code_editor_execute tool_args st =
     (case (getitem tool_args ''source'', getitem tool_args ''code_request'') of
        (Some source, Some code_request) \<Rightarrow>
          (if \<not> output_confirmed st then
             (case notebook_by_name (world st) source of
                None \<Rightarrow> (Raise AttributeError, st)
              | Some cells \<Rightarrow>
                  (Return (VDict [(''notebook'', source),
                                  (''generated_code'',
                                   VStr (llm_code (world st) code_request (get_source_code cells)))]),
                   st\<lparr> output_confirmed := False \<rparr>))
           else
             (case tool_output st of
                VDict out \<Rightarrow>
                  (case getitem out ''generated_code'' of
                     None \<Rightarrow> (Raise (KeyError ''generated_code''), st)
                   | Some (VStr generated_code) \<Rightarrow>
                       (case (source, notebook_by_name (world st) source) of
                          (VStr n, Some cells) \<Rightarrow>
                            (Return (VDict [(''notebook'', source),
                                            (''generated_code'', VStr generated_code)]),
                             st\<lparr> world := add_source_code (world st) n cells generated_code,
                                 output_confirmed := False \<rparr>)
                        | _ \<Rightarrow> (Raise AttributeError, st))
                   | Some v \<Rightarrow> (Raise AttributeError, st))
              | _ \<Rightarrow> (Raise TypeError, st)))
      | _ \<Rightarrow> (Raise TypeError, st))"

definition code_editor_tool :: "code_editor_world agent_tool" where
  "code_editor_tool =
     \<lparr> name = ''code_editor_tool'',
       args_schema = code_editor_schema,
       args_validation_rules = [(''source'', [code_editor_source_rule])],
       args_inference_rules = map (\<lambda>(arg, fld). (arg, None)) code_editor_schema,
       execute = code_editor_execute \<rparr>"

text \<open>\<open>__init__\<close> sets \<open>execution_confirmed\<close>; \<open>output_confirmed\<close> keeps the default.\<close>

definition code_editor_init :: "code_editor_world \<Rightarrow> code_editor_world tool_state" where
  "code_editor_init w =
     \<lparr> execution_confirmed = True, output_confirmed = False, tool_output = VNone, world = w \<rparr>"

subsection \<open>\<open>CDSHistoricNotebookTool\<close> (\<open>cds_historic_notebook_tool.py\<close>)\<close>

text \<open>
  What the tool takes from outside: the clock and \<open>datetime.strptime\<close> (a point in
  time for a text and a format, \<open>None\<close> when it raises \<open>ValueError\<close>), the two default
  dates and the time stamp that are computed from the clock, the value \<open>ask_llm\<close>
  returns when it is asked for the bounding box of a named area, and the notebooks that
  have been saved, each with the parameter mapping it was written from.
\<close>

record historic_world =
  strptime :: "string \<Rightarrow> string \<Rightarrow> int option"
  month_start :: int
  default_start :: string
  default_end :: string
  timestamp :: string
  llm_bounding_box :: "string \<Rightarrow> pyval"
  saved :: "(pyval \<times> pydict) list"

text \<open>
  The arguments have the types the schema declares; pydantic checks them before
  \<open>_run\<close> is reached.  Where a rule uses a value as a string, as a number or as a list
  and the value is of another kind, the model raises the exception of the first
  operation that fails.
\<close>

definition arg :: "pydict \<Rightarrow> string \<Rightarrow> pyerror + pyval" where
  "arg ka k = (case getitem ka k of None \<Rightarrow> Inl (KeyError k) | Some v \<Rightarrow> Inr v)"

text \<open>The characters of a string or of an enumeration member, which is a string too.\<close>

fun text_of :: "pyval \<Rightarrow> string option" where
  "text_of (VStr s) = Some s"
| "text_of (VEnum n s) = Some s"
| "text_of v = None"

text \<open>What a \<open>for\<close> loop over a value yields.\<close>

fun iter_items :: "pyval \<Rightarrow> pyerror + pyval list" where
  "iter_items (VList xs) = Inr xs"
| "iter_items (VStr s) = Inr (map (\<lambda>c. VStr [c]) s)"
| "iter_items (VEnum n s) = Inr (map (\<lambda>c. VStr [c]) s)"
| "iter_items (VDict d) = Inr (map (\<lambda>(k, v). VStr k) d)"
| "iter_items v = Inl TypeError"

text \<open>A list comprehension whose element expression may raise.\<close>

fun map_raise :: "('a \<Rightarrow> pyerror + 'b) \<Rightarrow> 'a list \<Rightarrow> pyerror + 'b list" where
  "map_raise f [] = Inr []"
| "map_raise f (x # xs) =
     (case f x of
        Inl e \<Rightarrow> Inl e
      | Inr y \<Rightarrow> (case map_raise f xs of Inl e \<Rightarrow> Inl e | Inr ys \<Rightarrow> Inr (y # ys)))"

paragraph \<open>The two enumerations\<close>

definition reanalysis_era5_land_monthly_means :: pyval where
  "reanalysis_era5_land_monthly_means =
     VEnum ''reanalysis_era5_land_monthly_means'' ''reanalysis-era5-land-monthly-means''"

definition reanalysis_era5_land :: pyval where
  "reanalysis_era5_land = VEnum ''reanalysis_era5_land'' ''reanalysis-era5-land''"

definition total_precipitation :: pyval where
  "total_precipitation = VEnum ''total_precipitation'' ''total_precipitation''"

definition temperature :: pyval where
  "temperature = VEnum ''temperature'' ''temperature''"

definition dash_to_underscore :: "string \<Rightarrow> string" where
  "dash_to_underscore s = map (\<lambda>c. if c = CHR ''-'' then CHR ''_'' else c) s"

definition underscore_to_dash :: "string \<Rightarrow> string" where
  "underscore_to_dash s = map (\<lambda>c. if c = CHR ''_'' then CHR ''-'' else c) s"

text \<open>
  \<open>InputHistoricCDSDataset.from_str\<close>.  A value that cannot be hashed fails at the
  membership test, any other value that is not a string at \<open>replace\<close>.
\<close>

definition dataset_from_str :: "pyval \<Rightarrow> bool \<Rightarrow> pyerror + pyval" where
  "dataset_from_str alias raise_error =
     (case text_of alias of
        None \<Rightarrow> (case alias of VList xs \<Rightarrow> Inl TypeError | VDict d \<Rightarrow> Inl TypeError | _ \<Rightarrow> Inl AttributeError)
      | Some a \<Rightarrow>
          if a = ''reanalysis_era5_land_monthly_means'' then Inr reanalysis_era5_land_monthly_means
          else if a = ''reanalysis_era5_land'' then Inr reanalysis_era5_land
          else if dash_to_underscore a = ''reanalysis_era5_land_monthly_means'' then Inr reanalysis_era5_land_monthly_means
          else if dash_to_underscore a = ''reanalysis_era5_land'' then Inr reanalysis_era5_land
          else if a = ''InputHistoricCDSDataset.reanalysis_era5_land_monthly_means'' then Inr reanalysis_era5_land_monthly_means
          else if contains a ''month'' then Inr reanalysis_era5_land_monthly_means
          else if a = ''InputHistoricCDSDataset.reanalysis_era5_land'' then Inr reanalysis_era5_land
          else if contains a ''hour'' then Inr reanalysis_era5_land
          else if raise_error then Inl ValueError
          else Inr VNone)"

text \<open>\<open>InputHistoricVariable.from_str\<close>; here a value that is not a string fails at \<open>in\<close>.\<close>

definition variable_from_str :: "pyval \<Rightarrow> bool \<Rightarrow> pyerror + pyval" where
  "variable_from_str alias raise_error =
     (case text_of alias of
        None \<Rightarrow> Inl TypeError
      | Some a \<Rightarrow>
          if a = ''total_precipitation'' then Inr total_precipitation
          else if a = ''temperature'' then Inr temperature
          else if contains a ''prec'' then Inr total_precipitation
          else if contains a ''temp'' then Inr temperature
          else if raise_error then Inl ValueError
          else Inr VNone)"

text \<open>Calling the enumeration class on a value: the member with that value.\<close>

definition InputHistoricCDSDataset :: "pyval \<Rightarrow> pyerror + pyval" where
  "InputHistoricCDSDataset v =
     (if text_of v = Some ''reanalysis-era5-land-monthly-means'' then Inr reanalysis_era5_land_monthly_means
      else if text_of v = Some ''reanalysis-era5-land'' then Inr reanalysis_era5_land
      else Inl ValueError)"

definition InputHistoricVariable :: "pyval \<Rightarrow> pyerror + pyval" where
  "InputHistoricVariable v =
     (if text_of v = Some ''total_precipitation'' then Inr total_precipitation
      else if text_of v = Some ''temperature'' then Inr temperature
      else Inl ValueError)"

fun as_icisk :: "pyval \<Rightarrow> pyerror + pyval" where
  "as_icisk (VEnum n v) =
     Inr (if v = ''total_precipitation'' then VStr ''tp''
          else if v = ''temperature'' then VStr ''t2m'' else VNone)"
| "as_icisk v = Inl AttributeError"

fun as_cds :: "pyval \<Rightarrow> pyerror + pyval" where
  "as_cds (VEnum n v) =
     Inr (if v = ''total_precipitation'' then VStr ''total_precipitation''
          else if v = ''temperature'' then VStr ''2m_temperature'' else VNone)"
| "as_cds v = Inl AttributeError"

paragraph \<open>Validation rules\<close>

definition historic_schema :: schema where
  "historic_schema =
     [(''historic_dataset'', Field None ''The historic dataset to be used for the data retrieval.''),
      (''historic_variables'', Field None ''List of historic variables to be retrieved from the CDS API.''),
      (''area'', Field None ''The area of interest for the historic data.''),
      (''start_time'', Field (Some VNone) ''The start datetime provided in UTC-0 YYYY-MM-DD.''),
      (''end_time'', Field (Some VNone) ''The end date provided in UTC-0 YYYY-MM-DD.''),
      (''zarr_output'', Field (Some VNone) ''The path to the output zarr file with the historic data.''),
      (''jupyter_notebook'', Field (Some VNone)
         ''The path to the jupyter notebook that was used to build the data ingest procedure.'')]"

definition member_names :: "string list \<Rightarrow> pyval" where
  "member_names ns = VList [VList (map VStr ns)]"

definition historic_dataset_rule :: "historic_world validation_rule" where
  "historic_dataset_rule st ka =
     (case arg ka ''historic_dataset'' of
        Inl e \<Rightarrow> Inl e
      | Inr v \<Rightarrow>
          (case dataset_from_str v False of
             Inl e \<Rightarrow> Inl e
           | Inr m \<Rightarrow>
               Inr (if m = VNone
                    then Some (FString ''Invalid historic dataset: {}. It should be a list of valid CDS historic dataset: {}.''
                                 [v, member_names [''reanalysis_era5_land_monthly_means'', ''reanalysis_era5_land'']])
                    else None)))"

text \<open>The variables of the list that \<open>from_str\<close> does not know.\<close>

definition unknown_variables :: "pyval \<Rightarrow> pyerror + pyval list" where
  "unknown_variables vs =
     (case iter_items vs of
        Inl e \<Rightarrow> Inl e
      | Inr xs \<Rightarrow>
          (case map_raise (\<lambda>v. variable_from_str v False) xs of
             Inl e \<Rightarrow> Inl e
           | Inr ms \<Rightarrow> Inr (map fst (filter (\<lambda>(v, m). m = VNone) (zip xs ms)))))"

definition historic_variables_rule :: "historic_world validation_rule" where
  "historic_variables_rule st ka =
     (case arg ka ''historic_variables'' of
        Inl e \<Rightarrow> Inl e
      | Inr vs \<Rightarrow>
          (case unknown_variables vs of
             Inl e \<Rightarrow> Inl e
           | Inr bad \<Rightarrow>
               Inr (if length bad > 0
                    then Some (FString ''Invalid historic variables: {}. It should be a list of valid CDS historic variables: {}.''
                                 [VList bad, member_names [''total_precipitation'', ''temperature'']])
                    else None)))"

definition area_rule :: "historic_world validation_rule" where
  "area_rule st ka =
     (case arg ka ''area'' of
        Inl e \<Rightarrow> Inl e
      | Inr v \<Rightarrow>
          Inr (case v of
                 VList xs \<Rightarrow>
                   if length xs \<noteq> 4
                   then Some (FString ''Invalid area coordinates: {}. It should be a list of 4 float values representing the bounding box [min_x, min_y, max_x, max_y].'' [v])
                   else None
               | _ \<Rightarrow> None))"

text \<open>\<open>datetime.datetime.strptime(v, fmt)\<close>\<close>

definition parse_time :: "historic_world \<Rightarrow> pyval \<Rightarrow> string \<Rightarrow> pyerror + int" where
  "parse_time w v fmt =
     (case text_of v of
        None \<Rightarrow> Inl TypeError
      | Some s \<Rightarrow> (case strptime w s fmt of None \<Rightarrow> Inl ValueError | Some t \<Rightarrow> Inr t))"

text \<open>
  The format rule of a date, with \<open>try_default\<close> around \<open>strptime\<close>, and the rules that
  come after it for the same argument, two of which call \<open>strptime\<close> bare.
\<close>

definition time_format_rule :: "string \<Rightarrow> string \<Rightarrow> historic_world validation_rule" where
  "time_format_rule k msg st ka =
     (case arg ka k of
        Inl e \<Rightarrow> Inl e
      | Inr v \<Rightarrow>
          Inr (if v \<noteq> VNone \<and> (case parse_time (world st) v ''%Y-%m-%d'' of Inl e \<Rightarrow> True | Inr t \<Rightarrow> False)
               then Some (FString msg [v]) else None))"

definition start_time_past_rule :: "historic_world validation_rule" where
  "start_time_past_rule st ka =
     (case arg ka ''start_time'' of
        Inl e \<Rightarrow> Inl e
      | Inr v \<Rightarrow>
          if v = VNone then Inr None
          else (case parse_time (world st) v ''%Y-%m-%d'' of
                  Inl e \<Rightarrow> Inl e
                | Inr t \<Rightarrow>
                    Inr (if t > month_start (world st)
                         then Some (FString ''Invalid start time: {}. It should be in the past, at least in the previous month.'' [v])
                         else None)))"

definition end_time_after_rule :: "historic_world validation_rule" where
  "end_time_after_rule st ka =
     (case arg ka ''start_time'' of
        Inl e \<Rightarrow> Inl e
      | Inr s \<Rightarrow>
          if s = VNone then Inr None
          else (case arg ka ''end_time'' of
                  Inl e \<Rightarrow> Inl e
                | Inr v \<Rightarrow>
                    Inr (if v \<noteq> VNone \<and>
                            (case parse_time (world st) v ''%Y-%m'' of
                               Inl e \<Rightarrow> False
                             | Inr t \<Rightarrow>
                                 (case parse_time (world st) s ''%Y-%m'' of
                                    Inl e \<Rightarrow> False
                                  | Inr t' \<Rightarrow> t \<le> t'))
                         then Some (FString ''Invalid end time: {}. It should be at least one month after the init time.'' [v])
                         else None)))"

definition end_time_past_rule :: "historic_world validation_rule" where
  "end_time_past_rule st ka =
     (case arg ka ''end_time'' of
        Inl e \<Rightarrow> Inl e
      | Inr v \<Rightarrow>
          if v = VNone then Inr None
          else (case parse_time (world st) v ''%Y-%m-%d'' of
                  Inl e \<Rightarrow> Inl e
                | Inr t \<Rightarrow>
                    Inr (if t \<ge> month_start (world st)
                         then Some (FString ''Invalid end time: {}. It should be at least in the previous month with respect to the current date'' [v])
                         else None)))"

definition historic_validation_rules :: "(string \<times> historic_world validation_rule list) list" where
  "historic_validation_rules =
     [(''historic_dataset'', [historic_dataset_rule]),
      (''historic_variables'', [historic_variables_rule]),
      (''area'', [area_rule]),
      (''start_time'',
         [time_format_rule ''start_time'' ''Invalid start time: {}. It should be in the format YYYY-MM-DD.'',
          start_time_past_rule]),
      (''end_time'',
         [time_format_rule ''end_time'' ''Invalid end time: {}. It should be in the format YYYY-MM-DD.'',
          end_time_after_rule,
          end_time_past_rule])]"

paragraph \<open>Inference rules\<close>

definition bind_e :: "pyerror + 'a \<Rightarrow> ('a \<Rightarrow> pyerror + 'b) \<Rightarrow> pyerror + 'b" where
  "bind_e r f = (case r of Inl e \<Rightarrow> Inl e | Inr x \<Rightarrow> f x)"

definition lift :: "pyerror + 'a \<Rightarrow> 's \<Rightarrow> 'a outcome \<times> 's" where
  "lift r st = (case r of Inl e \<Rightarrow> (Raise e, st) | Inr x \<Rightarrow> (Return x, st))"

definition infer_historic_dataset :: "historic_world inference_rule" where
  "infer_historic_dataset ka st =
     lift (bind_e (arg ka ''historic_dataset'') (\<lambda>v. dataset_from_str v True)) st"

definition alias_to_enum :: "pyval \<Rightarrow> pyerror + pyval" where
  "alias_to_enum historic_variables =
     bind_e (iter_items historic_variables) (\<lambda>xs.
     bind_e (map_raise (\<lambda>v. variable_from_str v True) xs) (\<lambda>ms. Inr (VList ms)))"

text \<open>
  \<open>infer_historic_variables\<close> computes the list of members, a list of the distinct
  ones, and returns a fresh list of members: the distinct list is not used.
\<close>

definition infer_historic_variables :: "historic_world inference_rule" where
  "infer_historic_variables ka st =
     lift (bind_e (arg ka ''historic_variables'') (\<lambda>vs.
           bind_e (alias_to_enum vs) (\<lambda>ms.
           bind_e (arg ka ''historic_variables'') alias_to_enum))) st"

text \<open>\<open>utils.floor_decimals\<close> and \<open>utils.ceil_decimals\<close>, on exact numbers.\<close>

fun number_of :: "pyval \<Rightarrow> rat option" where
  "number_of (VInt i) = Some (of_int i)"
| "number_of (VNum q) = Some q"
| "number_of (VBool b) = Some (if b then 1 else 0)"
| "number_of v = None"

definition floor_decimals :: "pyval \<Rightarrow> nat \<Rightarrow> pyerror + pyval" where
  "floor_decimals number decimals =
     (case number_of number of
        None \<Rightarrow> Inl TypeError
      | Some x \<Rightarrow> Inr (VNum (of_int \<lfloor>x * 10 ^ decimals\<rfloor> / 10 ^ decimals)))"

definition ceil_decimals :: "pyval \<Rightarrow> nat \<Rightarrow> pyerror + pyval" where
  "ceil_decimals number decimals =
     (case number_of number of
        None \<Rightarrow> Inl TypeError
      | Some x \<Rightarrow> Inr (VNum (of_int \<lceil>x * 10 ^ decimals\<rceil> / 10 ^ decimals)))"

definition item :: "pyval list \<Rightarrow> nat \<Rightarrow> pyerror + pyval" where
  "item xs i = (if i < length xs then Inr (xs ! i) else Inl IndexError)"

definition round_bounding_box :: "pyval \<Rightarrow> pyerror + pyval" where
  "round_bounding_box area =
     (case area of
        VList xs \<Rightarrow>
          bind_e (item xs 0) (\<lambda>a0. bind_e (floor_decimals a0 1) (\<lambda>min_x.
          bind_e (item xs 1) (\<lambda>a1. bind_e (floor_decimals a1 1) (\<lambda>min_y.
          bind_e (item xs 2) (\<lambda>a2. bind_e (ceil_decimals a2 1) (\<lambda>max_x.
          bind_e (item xs 3) (\<lambda>a3. bind_e (ceil_decimals a3 1) (\<lambda>max_y.
            Inr (VList [min_x, min_y, max_x, max_y])))))))))
      | _ \<Rightarrow> Inr area)"

text \<open>
  \<open>infer_area\<close>: a name is replaced by what the model answers, and the tool asks for a
  confirmation of the arguments; a list is rounded outwards to one decimal.
\<close>

definition infer_area :: "historic_world inference_rule" where
  "infer_area ka st =
     (case arg ka ''area'' of
        Inl e \<Rightarrow> (Raise e, st)
      | Inr area \<Rightarrow>
          (case area of
             VStr place \<Rightarrow>
               lift (round_bounding_box (llm_bounding_box (world st) place))
                    (st\<lparr> execution_confirmed := False \<rparr>)
           | _ \<Rightarrow> lift (round_bounding_box area) st))"

text \<open>Comparison of two dates as strings.\<close>

definition text_less :: "pyval \<Rightarrow> pyval \<Rightarrow> pyerror + bool" where
  "text_less a b =
     (case (text_of a, text_of b) of
        (Some x, Some y) \<Rightarrow> Inr (x < y)
      | _ \<Rightarrow> Inl TypeError)"

definition infer_start_time :: "historic_world inference_rule" where
  "infer_start_time ka st =
     lift (bind_e (arg ka ''start_time'') (\<lambda>start_time.
           if start_time = VNone then Inr (VStr (default_start (world st)))
           else bind_e (arg ka ''end_time'') (\<lambda>end_time.
                if end_time = VNone then Inr start_time
                else bind_e (text_less end_time start_time) (\<lambda>later.
                       Inr (if later then end_time else start_time))))) st"

definition infer_end_time :: "historic_world inference_rule" where
  "infer_end_time ka st =
     lift (bind_e (arg ka ''end_time'') (\<lambda>end_time.
           if end_time = VNone then Inr (VStr (default_end (world st)))
           else bind_e (arg ka ''start_time'') (\<lambda>start_time.
                if start_time = VNone then Inr end_time
                else bind_e (text_less end_time start_time) (\<lambda>earlier.
                       Inr (if earlier then start_time else end_time))))) st"

text \<open>\<open>sep.join(xs)\<close>, which wants strings.\<close>

definition join_values :: "string \<Rightarrow> pyval list \<Rightarrow> pyerror + string" where
  "join_values sep xs =
     bind_e (map_raise (\<lambda>v. case v of VStr s \<Rightarrow> Inr s | VEnum n s \<Rightarrow> Inr s | _ \<Rightarrow> Inl TypeError) xs)
            (\<lambda>ss. Inr (join_with sep ss))"

definition icisk_names :: "pydict \<Rightarrow> pyerror + pyval list" where
  "icisk_names ka =
     bind_e (arg ka ''historic_variables'') (\<lambda>vs.
     bind_e (iter_items vs) (\<lambda>xs. map_raise as_icisk xs))"

text \<open>The rule of \<open>zarr_output\<close> and of \<open>jupyter_notebook\<close>, which differ in the extension.\<close>

definition infer_file_name :: "string \<Rightarrow> string \<Rightarrow> historic_world inference_rule" where
  "infer_file_name k ext ka st =
     lift (bind_e (arg ka k) (\<lambda>v.
           if v = VNone then
             bind_e (icisk_names ka) (\<lambda>ns.
             bind_e (join_values ''-'' ns) (\<lambda>j.
               Inr (VStr (''icisk-ai_cds-historic-'' @ j @ ''_'' @ timestamp (world st) @ ext))))
           else (case text_of v of
                   None \<Rightarrow> Inl AttributeError
                 | Some s \<Rightarrow> Inr (if \<not> endswith s ext then VStr (s @ ext) else v)))) st"

definition historic_inference_rules :: "(string \<times> historic_world inference_rule option) list" where
  "historic_inference_rules =
     [(''historic_dataset'', Some infer_historic_dataset),
      (''historic_variables'', Some infer_historic_variables),
      (''area'', Some infer_area),
      (''start_time'', Some infer_start_time),
      (''end_time'', Some infer_end_time),
      (''zarr_output'', Some (infer_file_name ''zarr_output'' ''.zarr'')),
      (''jupyter_notebook'', Some (infer_file_name ''jupyter_notebook'' ''.ipynb''))]"

paragraph \<open>The execution body\<close>

text \<open>
  \<open>_execute\<close> builds the parameter mapping of the notebook (the description text, which
  repeats these values, is left out), has the template written and the notebook saved,
  sets \<open>execution_confirmed\<close> to false and returns the two paths.
\<close>

definition nb_values :: "pydict \<Rightarrow> pyerror + pydict" where
  "nb_values ka =
     bind_e (arg ka ''historic_dataset'') (\<lambda>historic_dataset.
     bind_e (arg ka ''historic_variables'') (\<lambda>historic_variables.
     bind_e (arg ka ''area'') (\<lambda>area.
     bind_e (arg ka ''start_time'') (\<lambda>start_time.
     bind_e (arg ka ''end_time'') (\<lambda>end_time.
     bind_e (arg ka ''zarr_output'') (\<lambda>zarr_output.
     bind_e (InputHistoricCDSDataset historic_dataset) (\<lambda>ds.
     bind_e (iter_items historic_variables) (\<lambda>xs.
     bind_e (map_raise (\<lambda>v. bind_e (InputHistoricVariable v) as_cds) xs) (\<lambda>cds.
     bind_e (map_raise (\<lambda>v. bind_e (InputHistoricVariable v) as_icisk) xs) (\<lambda>icisk.
     bind_e (join_values ''_'' icisk) (\<lambda>j.
       Inr [(''historic_dataset'', VStr (underscore_to_dash (case text_of ds of Some s \<Rightarrow> s | None \<Rightarrow> []))),
            (''historic_variables'', VList cds),
            (''area'', area),
            (''start_time'', start_time),
            (''end_time'', end_time),
            (''zarr_output'', zarr_output),
            (''historic_variables_icisk'', VList icisk),
            (''dataset_var_name'', VStr (''dataset_cds_historic_'' @ j))])))))))))))"

definition historic_execute ::
  "pydict \<Rightarrow> historic_world tool_state \<Rightarrow> pyval outcome \<times> historic_world tool_state" where
  "historic_execute ka st =
     (if map fst ka \<noteq> map fst historic_schema then (Raise TypeError, st)
      else
        (case bind_e (arg ka ''jupyter_notebook'') (\<lambda>nb. bind_e (nb_values ka) (\<lambda>vals.
                bind_e (arg ka ''zarr_output'') (\<lambda>z. Inr (nb, vals, z)))) of
           Inl e \<Rightarrow> (Raise e, st)
         | Inr (jupyter_notebook, vals, zarr_output) \<Rightarrow>
             (Return (VDict [(''data_source'', zarr_output), (''notebook'', jupyter_notebook)]),
              st\<lparr> world := (world st)\<lparr> saved := saved (world st) @ [(jupyter_notebook, vals)] \<rparr>,
                  execution_confirmed := False \<rparr>)))"

definition cds_historic_notebook_tool :: "historic_world agent_tool" where
  "cds_historic_notebook_tool =
     \<lparr> name = ''cds_historic_notebook_tool'',
       args_schema = historic_schema,
       args_validation_rules = historic_validation_rules,
       args_inference_rules = historic_inference_rules,
       execute = historic_execute \<rparr>"

text \<open>\<open>__init__\<close> sets \<open>output_confirmed\<close>, so this tool never asks for its output to be confirmed.\<close>

definition cds_historic_init :: "historic_world \<Rightarrow> historic_world tool_state" where
  "cds_historic_init w =
     \<lparr> execution_confirmed = False, output_confirmed = True, tool_output = VNone, world = w \<rparr>"






text \<open>The \<open>_run\<close> of the subclass builds \<open>tool_args\<close> from its seven parameters.\<close>

definition historic_tool_args ::
  "pyval \<Rightarrow> pyval \<Rightarrow> pyval \<Rightarrow> pyval \<Rightarrow> pyval \<Rightarrow> pyval \<Rightarrow> pyval \<Rightarrow> pydict" where
  "historic_tool_args historic_dataset historic_variables area start_time end_time zarr_output
     jupyter_notebook =
     [(''historic_dataset'', historic_dataset),
      (''historic_variables'', historic_variables),
      (''area'', area),
      (''start_time'', start_time),
      (''end_time'', end_time),
      (''zarr_output'', zarr_output),
      (''jupyter_notebook'', jupyter_notebook)]"

subsection \<open>A run of the code editor, used in the examples below\<close>

text \<open>
  A user with one notebook asks for a plot; the model answers the request with one line
  of code.  The pending call, and the interrupt the first pass of the tool raises.
\<close>

definition editor_world :: code_editor_world where
  "editor_world =
     \<lparr> notebooks = [(''analysis.ipynb'', [(''code'', ''import xarray'')])],
       llm_code = (\<lambda>code_request source_code. ''print(1)'') \<rparr>"

definition editor_args :: pydict where
  "editor_args = [(''source'', VStr ''analysis.ipynb''), (''code_request'', VStr ''plot the data'')]"

definition editor_message :: tool_message where
  "editor_message =
     \<lparr> message_id = ''ai-1'',
       tool_calls = [\<lparr> call_name = ''code_editor_tool'', call_args = editor_args, call_id = ''call-1'' \<rparr>] \<rparr>"

definition editor_output :: pyval where
  "editor_output = VDict [(''notebook'', VStr ''analysis.ipynb''), (''generated_code'', VStr ''print(1)'')]"

definition editor_interrupt :: tool_interrupt where
  "editor_interrupt =
     \<lparr> interrupt_tool = ''code_editor_tool'',
       interrupt_type = CONFIRM_OUTPUT,
       interrupt_reason = ''A user confirmation of the ouput is required.'',
       interrupt_data = OutputToConfirm editor_args editor_output \<rparr>"

subsection \<open>Calls of the historic notebook tool, used in the examples below\<close>

text \<open>
  The tool is called on 15 June 2024 at 10:00.  Points in time are seconds since 1970;
  \<open>strptime\<close> is given at the texts the examples use.  Asked for a bounding box, the
  model answers with four numbers for Italy, with a point for Paris, and with a text for
  a place it does not know.
\<close>

definition historic_example_world :: historic_world where
  "historic_example_world =
     \<lparr> strptime = (\<lambda>s fmt.
         if fmt = ''%Y-%m-%d'' \<and> s = ''2024-01-01'' then Some 1704067200
         else if fmt = ''%Y-%m-%d'' \<and> s = ''2024-03-01'' then Some 1709251200
         else None),
       month_start = 1717236000,
       default_start = ''2024-02-01'',
       default_end = ''2024-01-01'',
       timestamp = ''2024-06-15T10-00-00'',
       llm_bounding_box = (\<lambda>place.
         if place = ''Italy'' then VList [VNum (66 / 10), VNum (354 / 10), VNum (186 / 10), VNum (473 / 10)]
         else if place = ''Paris'' then VList [VNum (235 / 100), VNum (4885 / 100)]
         else if place = ''unknown'' then VList [VInt 0, VInt 0, VInt 0, VInt 0]
         else VStr ''unknown''),
       saved = [] \<rparr>"

text \<open>The state of the tool once the human has confirmed the arguments.\<close>

definition historic_confirmed :: "historic_world tool_state" where
  "historic_confirmed = (cds_historic_init historic_example_world)\<lparr> execution_confirmed := True \<rparr>"

definition historic_call :: "pyval \<Rightarrow> pyval \<Rightarrow> pydict" where
  "historic_call area start_time =
     historic_tool_args (VStr ''reanalysis-era5-land'') (VList [VStr ''total_precipitation''])
       area start_time (VStr ''2024-03-01'') (VStr ''italy'') (VStr ''italy.ipynb'')"

definition italy_box :: pyval where
  "italy_box = VList [VNum (662 / 100), VNum (3549 / 100), VNum (1852 / 100), VNum (4725 / 100)]"


section \<open>Properties\<close>

subsection \<open>Dictionaries\<close>

lemma getitem_setitem: "getitem (setitem d k v) k' = (if k' = k then Some v else getitem d k')"
  by (induction d) (auto simp: getitem_def)

lemma getitem_update_items:
  "distinct (map fst other) \<Longrightarrow>
   getitem (update_items d other) k = (case getitem other k of Some v \<Rightarrow> Some v | None \<Rightarrow> getitem d k)"
proof (induction other arbitrary: d)
  case Nil
  then show ?case by (simp add: getitem_def)
next
  case (Cons p other)
  obtain k' v' where p: "p = (k', v')" by (cases p)
  from Cons.prems p have d: "distinct (map fst other)" and nk: "k' \<notin> fst ` set other" by auto
  have n: "getitem other k' = None" using nk by (simp add: getitem_def map_of_eq_None_iff)
  have "getitem (p # other) k = (if k = k' then Some v' else getitem other k)"
    using p by (simp add: getitem_def)
  then show ?case using Cons.IH[OF d, of "setitem d k' v'"] p n
    by (simp add: getitem_setitem split: option.splits)
qed

lemma missing_args_present:
  "\<forall>(arg, fld) \<in> set sch. is_required fld \<longrightarrow> getitem tool_args arg \<noteq> None \<Longrightarrow>
   missing_args sch tool_args =
     Inr (map fst (filter (\<lambda>(arg, fld). is_required fld \<and> getitem tool_args arg = Some VNone) sch))"
proof (induction sch)
  case Nil
  then show ?case by simp
next
  case (Cons p sch)
  obtain arg fld where p: "p = (arg, fld)" by (cases p)
  from Cons.prems have rest: "\<forall>(arg, fld) \<in> set sch. is_required fld \<longrightarrow> getitem tool_args arg \<noteq> None"
    by simp
  note ih = Cons.IH[OF rest]
  show ?case
  proof (cases "is_required fld")
    case False
    then show ?thesis using p ih by simp
  next
    case True
    with Cons.prems p obtain v where v: "getitem tool_args arg = Some v" by auto
    show ?thesis using p True v ih by simp
  qed
qed

text \<open>
  Claim C2.  When the argument dictionary has an entry for every required field and at
  least one required field is \<open>None\<close>, the first thing \<open>run\<close> does is raise the
  \<open>PROVIDE_ARGS\<close> interrupt that lists the missing fields, with \<open>execution_confirmed\<close>
  set to false; whatever the validation rules would say, no \<open>INVALID_ARGS\<close> or
  \<open>CONFIRM_ARGS\<close> interrupt is raised, because the required check comes first.
\<close>

theorem run_missing_required_raises_provide_args:
  assumes present: "\<forall>(arg, fld) \<in> set (args_schema t). is_required fld \<longrightarrow> getitem tool_args arg \<noteq> None"
    and missing: "(a, f) \<in> set (args_schema t)" "is_required f" "getitem tool_args a = Some VNone"
  shows "\<exists>ms. a \<in> set ms \<and>
     run t tool_args st =
       (Interrupt \<lparr> interrupt_tool = name t, interrupt_type = PROVIDE_ARGS,
                    interrupt_reason = ''Missing required arguments: '' @ repr_names ms @ ''.'',
                    interrupt_data = MissingArgs ms (args_schema t) \<rparr>,
        st\<lparr> execution_confirmed := False \<rparr>)
     \<and> PROVIDE_ARGS \<noteq> INVALID_ARGS \<and> PROVIDE_ARGS \<noteq> CONFIRM_ARGS"
proof -
  let ?ms = "map fst (filter (\<lambda>(arg, fld). is_required fld \<and> getitem tool_args arg = Some VNone) (args_schema t))"
  have m: "missing_args (args_schema t) tool_args = Inr ?ms"
    using missing_args_present[OF present] .
  have a: "a \<in> set ?ms" using missing by force
  then have ne: "length ?ms > 0" by (cases ?ms) auto
  have "check_required_args t tool_args st =
       (Interrupt \<lparr> interrupt_tool = name t, interrupt_type = PROVIDE_ARGS,
                    interrupt_reason = ''Missing required arguments: '' @ repr_names ?ms @ ''.'',
                    interrupt_data = MissingArgs ?ms (args_schema t) \<rparr>,
        st\<lparr> execution_confirmed := False \<rparr>)"
    unfolding check_required_args_def m using ne by simp
  then have "run t tool_args st =
       (Interrupt \<lparr> interrupt_tool = name t, interrupt_type = PROVIDE_ARGS,
                    interrupt_reason = ''Missing required arguments: '' @ repr_names ?ms @ ''.'',
                    interrupt_data = MissingArgs ?ms (args_schema t) \<rparr>,
        st\<lparr> execution_confirmed := False \<rparr>)"
    by (simp add: run_def controls_before_execution_def and_then_def)
  with a show ?thesis
    by (intro exI[of _ ?ms]) (simp add: PROVIDE_ARGS_def INVALID_ARGS_def CONFIRM_ARGS_def)
qed

text \<open>
  Claim C8.  A pending tool call whose name is not in the registry makes the tool
  handler raise \<open>KeyError\<close>; a stashed interrupt whose tool is not in the registry, or
  whose type has no strategy in the table, makes the interrupt node raise \<open>KeyError\<close>.
  In each case the node returns no directive, raises no interrupt, and leaves the
  registry as it was.
\<close>

theorem unknown_tool_or_kind_propagates_key_error:
  "(last_item (messages state) = Inr (AIMessage tm) \<and> last_item (tool_calls tm) = Inr c \<and>
    getitem tools (call_name c) = None
    \<longrightarrow> tool_handler node tools state = (Raise (KeyError (call_name c)), tools))
   \<and>
   (getitem (node_params state) (tool_interrupt_node_name node) = Some (SuspendContext tm i hn) \<and>
    getitem tools (interrupt_tool i) = None
    \<longrightarrow> tool_interrupt_node node table parse turn tools state = (Raise (KeyError (interrupt_tool i)), tools))
   \<and>
   (getitem (node_params state) (tool_interrupt_node_name node) = Some (SuspendContext tm i hn) \<and>
    getitem tools (interrupt_tool i) = Some (t, st) \<and> getitem table (interrupt_type i) = None
    \<longrightarrow> tool_interrupt_node node table parse turn tools state = (Raise (KeyError (interrupt_type i)), tools))"
  by (simp add: tool_handler_def tool_interrupt_node_def as_tool_message_def)

text \<open>
  Claim C10.  Constructing a node A with a custom strategy for a kind changes the one
  table of the class; any node B that runs with the table as A's constructor left it
  dispatches an interrupt of that kind to A's custom strategy.
\<close>

theorem custom_handlers_shared_between_nodes:
  assumes "distinct (map fst custom)" and "getitem custom kind = Some h"
    and "BaseToolInterruptNode hA iA custom table = (A, table')"
    and "getitem (node_params state) (tool_interrupt_node_name B) = Some (SuspendContext tm i hn)"
    and "interrupt_type i = kind"
    and "getitem tools (interrupt_tool i) = Some (t, st)"
  shows "getitem table' kind = Some h \<and>
         tool_interrupt_node B table' parse turn tools state =
           (fst (handle h parse turn tm i hn st),
            setitem tools (interrupt_tool i) (t, snd (handle h parse turn tm i hn st)))"
proof -
  have t': "table' = update_items table custom" using assms(3) by (simp add: BaseToolInterruptNode_def)
  have g: "getitem table' kind = Some h" using getitem_update_items[OF assms(1), of table kind] assms(2) t' by simp
  show ?thesis using g assms(4-6)
    by (simp add: tool_interrupt_node_def split: prod.splits)
qed


text \<open>
  The code editor called without a request and with the name of a notebook that is not
  in the database: one required argument is missing, the \<open>source\<close> rule rejects the
  other argument, and the interrupt is \<open>PROVIDE_ARGS\<close>.
\<close>

theorem run_missing_required_raises_provide_args_witness:
  "missing_args (args_schema code_editor_tool)
       [(''source'', VStr ''draft.ipynb''), (''code_request'', VNone)] = Inr [''code_request'']
   \<and> getitem [(''source'', VStr ''draft.ipynb''), (''code_request'', VNone)] ''code_request'' = Some VNone
   \<and> code_editor_source_rule (code_editor_init \<lparr> notebooks = [], llm_code = (\<lambda>r c. []) \<rparr>)
        [(''source'', VStr ''draft.ipynb''), (''code_request'', VNone)] \<noteq> Inr None
   \<and> (\<exists>ms. ''code_request'' \<in> set ms \<and>
        run code_editor_tool [(''source'', VStr ''draft.ipynb''), (''code_request'', VNone)]
            (code_editor_init \<lparr> notebooks = [], llm_code = (\<lambda>r c. []) \<rparr>) =
          (Interrupt \<lparr> interrupt_tool = name code_editor_tool, interrupt_type = PROVIDE_ARGS,
                       interrupt_reason = ''Missing required arguments: '' @ repr_names ms @ ''.'',
                       interrupt_data = MissingArgs ms (args_schema code_editor_tool) \<rparr>,
           (code_editor_init \<lparr> notebooks = [], llm_code = (\<lambda>r c. []) \<rparr>)\<lparr> execution_confirmed := False \<rparr>))"
proof -
  let ?args = "[(''source'', VStr ''draft.ipynb''), (''code_request'', VNone)]"
  let ?f = "Field None ''Meaning and usefulness of the requested code''"
  have h1: "\<forall>(arg, fld) \<in> set (args_schema code_editor_tool). is_required fld \<longrightarrow> getitem ?args arg \<noteq> None"
    by (simp add: code_editor_tool_def code_editor_schema_def is_required_def getitem_def)
  have h2: "(''code_request'', ?f) \<in> set (args_schema code_editor_tool)"
    by (simp add: code_editor_tool_def code_editor_schema_def)
  have h3: "is_required ?f" by (simp add: is_required_def)
  have h4: "getitem ?args ''code_request'' = Some VNone" by (simp add: getitem_def)
  have h5: "code_editor_source_rule (code_editor_init \<lparr> notebooks = [], llm_code = (\<lambda>r c. []) \<rparr>) ?args \<noteq> Inr None"
    by (simp add: code_editor_source_rule_def notebook_by_name_def code_editor_init_def getitem_def)
  from run_missing_required_raises_provide_args [OF h1 h2 h3 h4, of "code_editor_init \<lparr> notebooks = [], llm_code = (\<lambda>r c. []) \<rparr>"]
  have "\<exists>ms. ''code_request'' \<in> set ms \<and>
        run code_editor_tool ?args (code_editor_init \<lparr> notebooks = [], llm_code = (\<lambda>r c. []) \<rparr>) =
          (Interrupt \<lparr> interrupt_tool = name code_editor_tool, interrupt_type = PROVIDE_ARGS,
                       interrupt_reason = ''Missing required arguments: '' @ repr_names ms @ ''.'',
                       interrupt_data = MissingArgs ms (args_schema code_editor_tool) \<rparr>,
           (code_editor_init \<lparr> notebooks = [], llm_code = (\<lambda>r c. []) \<rparr>)\<lparr> execution_confirmed := False \<rparr>)"
    by blast
  moreover have "missing_args (args_schema code_editor_tool) ?args = Inr [''code_request'']"
    by (simp add: code_editor_tool_def code_editor_schema_def is_required_def getitem_def)
  ultimately show ?thesis using h4 h5 by blast
qed

text \<open>
  A call of a tool the code editor sub-flow does not have, and a stashed interrupt of a
  type outside the table.
\<close>

theorem unknown_tool_or_kind_propagates_key_error_witness:
  "tool_handler \<lparr> tool_handler_node_name = ''code_editor_tool_handler'',
                  tool_interrupt_node_name = ''code_editor_tool_interrupt'' \<rparr>
      [(''code_editor_tool'', code_editor_tool, code_editor_init \<lparr> notebooks = [], llm_code = (\<lambda>r c. []) \<rparr>)]
      \<lparr> messages = [AIMessage \<lparr> message_id = ''m1'',
           tool_calls = [\<lparr> call_name = ''spi_tool'', call_args = [], call_id = ''c1'' \<rparr>] \<rparr>],
        node_params = [] \<rparr>
    = (Raise (KeyError ''spi_tool''),
       [(''code_editor_tool'', code_editor_tool, code_editor_init \<lparr> notebooks = [], llm_code = (\<lambda>r c. []) \<rparr>)])
   \<and>
   tool_interrupt_node \<lparr> tool_handler_node_name = ''code_editor_tool_handler'',
                  tool_interrupt_node_name = ''code_editor_tool_interrupt'' \<rparr>
      tool_interupt_handlers (\<lambda>c. None) \<lparr> response = None, llm_interpretation = [], llm_update_inputs = [] \<rparr>
      [(''code_editor_tool'', code_editor_tool, code_editor_init \<lparr> notebooks = [], llm_code = (\<lambda>r c. []) \<rparr>)]
      \<lparr> messages = [],
        node_params = [(''code_editor_tool_interrupt'',
           SuspendContext \<lparr> message_id = ''m1'', tool_calls = [] \<rparr>
             \<lparr> interrupt_tool = ''code_editor_tool'', interrupt_type = ''RETRY'',
               interrupt_reason = [], interrupt_data = MissingArgs [] [] \<rparr>
             ''code_editor_tool_handler'')] \<rparr>
    = (Raise (KeyError ''RETRY''),
       [(''code_editor_tool'', code_editor_tool, code_editor_init \<lparr> notebooks = [], llm_code = (\<lambda>r c. []) \<rparr>)])"
proof -
  let ?node = "\<lparr> tool_handler_node_name = ''code_editor_tool_handler'',
                  tool_interrupt_node_name = ''code_editor_tool_interrupt'' \<rparr>"
  let ?st = "code_editor_init \<lparr> notebooks = [], llm_code = (\<lambda>r c. []) \<rparr>"
  let ?tools = "[(''code_editor_tool'', code_editor_tool, ?st)]"
  let ?c = "\<lparr> call_name = ''spi_tool'', call_args = [], call_id = ''c1'' \<rparr>"
  let ?tm = "\<lparr> message_id = ''m1'', tool_calls = [?c] \<rparr>"
  let ?s1 = "\<lparr> messages = [AIMessage ?tm], node_params = [] \<rparr>"
  let ?i = "\<lparr> interrupt_tool = ''code_editor_tool'', interrupt_type = ''RETRY'',
               interrupt_reason = [], interrupt_data = MissingArgs [] [] \<rparr>"
  let ?tm2 = "\<lparr> message_id = ''m1'', tool_calls = [] \<rparr>"
  let ?s2 = "\<lparr> messages = [], node_params = [(''code_editor_tool_interrupt'',
           SuspendContext ?tm2 ?i ''code_editor_tool_handler'')] \<rparr>"
  have a1: "last_item (messages ?s1) = Inr (AIMessage ?tm) \<and> last_item (tool_calls ?tm) = Inr ?c \<and>
            getitem ?tools (call_name ?c) = None"
    by (simp add: last_item_def getitem_def)
  have a2: "getitem (node_params ?s2) (tool_interrupt_node_name ?node) =
              Some (SuspendContext ?tm2 ?i ''code_editor_tool_handler'') \<and>
            getitem ?tools (interrupt_tool ?i) = Some (code_editor_tool, ?st) \<and>
            getitem tool_interupt_handlers (interrupt_type ?i) = None"
    by (simp add: getitem_def tool_interupt_handlers_def
        PROVIDE_ARGS_def INVALID_ARGS_def CONFIRM_ARGS_def CONFIRM_OUTPUT_def)
  have r1: "tool_handler ?node ?tools ?s1 = (Raise (KeyError (call_name ?c)), ?tools)"
    using unknown_tool_or_kind_propagates_key_error [where state = ?s1 and tm = ?tm and c = ?c and tools = ?tools and node = ?node] a1 by blast
  have r2: "tool_interrupt_node ?node tool_interupt_handlers (\<lambda>c. None)
              \<lparr> response = None, llm_interpretation = [], llm_update_inputs = [] \<rparr> ?tools ?s2
            = (Raise (KeyError (interrupt_type ?i)), ?tools)"
    using unknown_tool_or_kind_propagates_key_error [where state = ?s2 and tm = ?tm2 and i = ?i and tools = ?tools and node = ?node
                and hn = "''code_editor_tool_handler''" and t = code_editor_tool and st = ?st
                and table = tool_interupt_handlers] a2 by blast
  show ?thesis using r1 r2 by simp
qed

text \<open>
  The code editor sub-flow registers its own output-confirmation strategy; afterwards
  the node of the ingestion sub-flow finds that strategy under \<open>CONFIRM_OUTPUT\<close>,
  where the class had the base strategy.
\<close>

theorem custom_handlers_shared_between_nodes_witness:
  "getitem (snd (BaseToolInterruptNode ''code_editor_tool_handler'' ''code_editor_tool_interrupt''
                   [(CONFIRM_OUTPUT, CodeEditorOutputConfirmationHandler)] tool_interupt_handlers))
           CONFIRM_OUTPUT = Some CodeEditorOutputConfirmationHandler
   \<and> getitem tool_interupt_handlers CONFIRM_OUTPUT = Some OutputConfirmationHandler"
proof -
  let ?custom = "[(CONFIRM_OUTPUT, CodeEditorOutputConfirmationHandler)]"
  let ?r = "BaseToolInterruptNode ''code_editor_tool_handler'' ''code_editor_tool_interrupt''
              ?custom tool_interupt_handlers"
  let ?st = "code_editor_init \<lparr> notebooks = [], llm_code = (\<lambda>r c. []) \<rparr>"
  let ?tools = "[(''code_editor_tool'', code_editor_tool, ?st)]"
  let ?i = "\<lparr> interrupt_tool = ''code_editor_tool'', interrupt_type = CONFIRM_OUTPUT,
               interrupt_reason = [], interrupt_data = OutputToConfirm [] VNone \<rparr>"
  let ?tm = "\<lparr> message_id = ''m1'', tool_calls = [] \<rparr>"
  let ?B = "\<lparr> tool_handler_node_name = ''cds_ingestor_tool_handler'',
             tool_interrupt_node_name = ''cds_ingestor_tool_interrupt'' \<rparr>"
  let ?s = "\<lparr> messages = [], node_params = [(''cds_ingestor_tool_interrupt'',
              SuspendContext ?tm ?i ''cds_ingestor_tool_handler'')] \<rparr>"
  have h1: "distinct (map fst ?custom)" by simp
  have h2: "getitem ?custom CONFIRM_OUTPUT = Some CodeEditorOutputConfirmationHandler"
    by (simp add: getitem_def)
  have h3: "?r = (fst ?r, snd ?r)" by simp
  have h4: "getitem (node_params ?s) (tool_interrupt_node_name ?B) =
              Some (SuspendContext ?tm ?i ''cds_ingestor_tool_handler'')"
    by (simp add: getitem_def)
  have h5: "interrupt_type ?i = CONFIRM_OUTPUT" by simp
  have h6: "getitem ?tools (interrupt_tool ?i) = Some (code_editor_tool, ?st)" by (simp add: getitem_def)
  have "getitem (snd ?r) CONFIRM_OUTPUT = Some CodeEditorOutputConfirmationHandler"
    using custom_handlers_shared_between_nodes [OF h1 h2 h3 h4 h5 h6] by blast
  moreover have "getitem tool_interupt_handlers CONFIRM_OUTPUT = Some OutputConfirmationHandler"
    by (simp add: getitem_def tool_interupt_handlers_def
        PROVIDE_ARGS_def INVALID_ARGS_def CONFIRM_ARGS_def CONFIRM_OUTPUT_def)
  ultimately show ?thesis by blast
qed


subsection \<open>The strategies\<close>

lemma add_messages_exit:
  "add_messages ms [RemoveMessage i, SystemMessage c] =
     filter (\<lambda>m. ident m \<noteq> Some i) ms @ [SystemMessage c]"
  by (simp add: add_messages_def add_message_def)

lemma generate_provided_args_call:
  assumes "h = InvalidArgsHandler \<longrightarrow> tool_calls tm \<noteq> []"
  shows "generate_provided_args h parse turn tm = Inr (ask_llm parse (llm_interpretation turn) True)"
  using assms by (simp add: generate_provided_args_def last_item_def)

lemma handle_exit:
  assumes "generate_interrupt_message h (interrupt_data i) = None"
    and "h = InvalidArgsHandler \<longrightarrow> tool_calls tm \<noteq> []"
    and "ask_llm parse (llm_interpretation turn) True = VNone"
  shows "handle h parse turn tm i hn st = (Return (exit_directive tm (response_text turn)), st)"
  using assms(1,3) by (simp add: handle_def Let_def generate_provided_args_call[OF assms(2)])

text \<open>
  The strategy for invalid arguments reads the last tool call of the pending message
  before it looks at the answer: on a message without tool calls it raises.
\<close>

lemma invalid_args_without_call:
  assumes "generate_interrupt_message InvalidArgsHandler (interrupt_data i) = None"
    and "tool_calls tm = []"
  shows "handle InvalidArgsHandler parse turn tm i hn st = (Raise IndexError, st)"
  using assms by (simp add: handle_def generate_provided_args_def last_item_def)

text \<open>
  Claim C6, as amended.  For each strategy, when the interpretation of the reply is
  \<open>None\<close>, the directive goes to \<open>END\<close>, removes the message with the pending tool
  call, appends exactly one system message, and replaces \<open>node_params\<close>, so the Suspend
  Context of the interrupt node is gone.  The tool is returned as it was: the flags are
  not touched.  The strategy for invalid arguments needs a tool call in the pending
  message.
\<close>

theorem abort_directive_cleans_conversation_state:
  assumes "generate_interrupt_message h (interrupt_data i) = None"
    and "h = InvalidArgsHandler \<longrightarrow> tool_calls tm \<noteq> []"
    and "ask_llm parse (llm_interpretation turn) True = VNone"
    and "node_name \<noteq> CHATBOT_UPDATE_MESSAGES"
  shows "\<exists>d content. handle h parse turn tm i hn st = (Return d, st)
           \<and> goto d = END
           \<and> upd_messages d = [RemoveMessage (message_id tm), SystemMessage content]
           \<and> messages (apply_directive state d) =
                filter (\<lambda>m. ident m \<noteq> Some (message_id tm)) (messages state) @ [SystemMessage content]
           \<and> getitem (node_params (apply_directive state d)) node_name = None"
proof -
  let ?content = "''User choose to exit the tool process with this response: '' @ response_text turn"
  let ?d = "exit_directive tm (response_text turn)"
  have 1: "handle h parse turn tm i hn st = (Return ?d, st)"
    using handle_exit[OF assms(1,2,3)] .
  have 2: "goto ?d = END" by (simp add: exit_directive_def Let_def)
  have 3: "upd_messages ?d = [RemoveMessage (message_id tm), SystemMessage ?content]"
    by (simp add: exit_directive_def Let_def)
  have 4: "messages (apply_directive state ?d) =
             filter (\<lambda>m. ident m \<noteq> Some (message_id tm)) (messages state) @ [SystemMessage ?content]"
    unfolding apply_directive_def 3 add_messages_exit by simp
  have 5: "getitem (node_params (apply_directive state ?d)) node_name = None"
    using assms(4) by (simp add: apply_directive_def exit_directive_def Let_def getitem_def)
  show ?thesis using 1 2 3 4 5 by blast
qed

lemma resume_is_not_exit: "resume_directive hn tm' \<noteq> exit_directive tm resp"
  by (simp add: resume_directive_def exit_directive_def Let_def)

lemma handle_args:
  assumes "generate_interrupt_message h (interrupt_data i) = None"
    and "tool_calls tm \<noteq> []"
    and "h = ProvideArgsHandler \<or> h = InvalidArgsHandler \<or> h = ArgsConfirmationHandler"
  shows "handle h parse turn tm i hn st =
     (if ask_llm parse (llm_interpretation turn) True = VNone
      then (Return (exit_directive tm (response_text turn)), st)
      else (case dict_update (call_args (last (tool_calls tm))) (ask_llm parse (llm_interpretation turn) True) of
              Inl e \<Rightarrow> (Raise e, st)
            | Inr args' \<Rightarrow>
                (Return (resume_directive hn
                   (tm\<lparr> tool_calls := butlast (tool_calls tm) @ [(last (tool_calls tm))\<lparr> call_args := args' \<rparr>] \<rparr>)),
                 if h = ArgsConfirmationHandler then st\<lparr> execution_confirmed := True \<rparr> else st)))"
proof -
  have "generate_provided_args h parse turn tm = Inr (ask_llm parse (llm_interpretation turn) True)"
    using assms(2) by (simp add: generate_provided_args_call)
  thus ?thesis
    using assms
    by (auto simp: handle_def Let_def update_last_call_def last_item_def split: sum.splits)
qed

lemma handle_output:
  assumes "generate_interrupt_message h (interrupt_data i) = None"
    and "h = OutputConfirmationHandler \<or> h = CodeEditorOutputConfirmationHandler"
    and "ask_llm parse (llm_interpretation turn) True \<noteq> VBool False"
  shows "handle h parse turn tm i hn st =
     (if ask_llm parse (llm_interpretation turn) True = VBool True
      then (Return (resume_directive hn tm), st\<lparr> output_confirmed := True \<rparr>)
      else (Return (exit_directive tm (response_text turn)), st))"
  using assms by (auto simp: handle_def Let_def generate_provided_args_def)

lemma handle_goto:
  assumes "handle h parse turn tm i hn st = (Return d, st')"
  shows "goto d = END \<or> goto d = hn"
  using assms
  by (auto simp: handle_def Let_def exit_directive_def resume_directive_def
      split: option.splits sum.splits if_splits)

lemma handle_no_interrupt:
  "handle h parse turn tm i hn st \<noteq> (Interrupt j, st')"
  by (auto simp: handle_def Let_def split: option.splits sum.splits)

text \<open>
  Claim C7, as amended.  No strategy asks the human again: \<open>handle\<close> raises, or it
  returns a directive that goes to \<open>END\<close> or back to the tool handler.  When the
  answer of the model cannot be evaluated, \<open>ask_llm\<close> returns its raw text.  The
  output strategies take the exit branch for every answer that is neither \<open>True\<close>
  nor \<open>False\<close>.  The three argument strategies take it for \<open>None\<close> only and give
  every other answer to \<open>update\<close>, which raises \<open>ValueError\<close> for a text that is not
  empty and \<open>TypeError\<close> for a number or a boolean.
\<close>

theorem unparsable_reply_aborts_or_raises:
  assumes g: "generate_interrupt_message h (interrupt_data i) = None"
    and c: "tool_calls tm \<noteq> []"
    and v: "v = ask_llm parse (llm_interpretation turn) True"
  shows "(parse (llm_interpretation turn) = None \<longrightarrow> v = VStr (llm_interpretation turn))
     \<and> (\<forall>j st'. handle h parse turn tm i hn st \<noteq> (Interrupt j, st'))
     \<and> (\<forall>d st'. handle h parse turn tm i hn st = (Return d, st') \<longrightarrow> goto d = END \<or> goto d = hn)
     \<and> (h = OutputConfirmationHandler \<or> h = CodeEditorOutputConfirmationHandler \<longrightarrow>
          v \<noteq> VBool True \<longrightarrow> v \<noteq> VBool False \<longrightarrow>
          handle h parse turn tm i hn st = (Return (exit_directive tm (response_text turn)), st))
     \<and> (h = ProvideArgsHandler \<or> h = InvalidArgsHandler \<or> h = ArgsConfirmationHandler \<longrightarrow>
          (fst (handle h parse turn tm i hn st) = Return (exit_directive tm (response_text turn))
             \<longleftrightarrow> v = VNone)
        \<and> (\<forall>s. v = VStr s \<longrightarrow> s \<noteq> [] \<longrightarrow> handle h parse turn tm i hn st = (Raise ValueError, st))
        \<and> ((\<exists>n. v = VInt n) \<or> (\<exists>q. v = VNum q) \<or> (\<exists>b. v = VBool b) \<longrightarrow>
              handle h parse turn tm i hn st = (Raise TypeError, st)))"
proof -
  have 1: "parse (llm_interpretation turn) = None \<longrightarrow> v = VStr (llm_interpretation turn)"
    using v by (simp add: ask_llm_def)
  have 2: "\<forall>d st'. handle h parse turn tm i hn st = (Return d, st') \<longrightarrow> goto d = END \<or> goto d = hn"
    using handle_goto by blast
  have 0: "\<forall>j st'. handle h parse turn tm i hn st \<noteq> (Interrupt j, st')"
    using handle_no_interrupt by blast
  have 3: "handle h parse turn tm i hn st = (Return (exit_directive tm (response_text turn)), st)"
    if "h = OutputConfirmationHandler \<or> h = CodeEditorOutputConfirmationHandler"
      and "v \<noteq> VBool True" and "v \<noteq> VBool False"
    using handle_output[OF g that(1), of parse turn tm hn st] that(2,3) v by simp
  have 4: "fst (handle h parse turn tm i hn st) = Return (exit_directive tm (response_text turn))
             \<longleftrightarrow> v = VNone"
    if "h = ProvideArgsHandler \<or> h = InvalidArgsHandler \<or> h = ArgsConfirmationHandler"
    using handle_args[OF g c that, of parse turn hn st] v
    by (auto simp: resume_is_not_exit split: sum.splits)
  have s: "s \<noteq> [] \<Longrightarrow> dict_update a (VStr s) = Inl ValueError" for a s
    by (cases s) auto
  have 5: "handle h parse turn tm i hn st = (Raise ValueError, st)"
    if "h = ProvideArgsHandler \<or> h = InvalidArgsHandler \<or> h = ArgsConfirmationHandler"
      and "v = VStr s" and "s \<noteq> []" for s
  proof -
    have e: "ask_llm parse (llm_interpretation turn) True = VStr s" using v that(2) by simp
    show ?thesis
      unfolding handle_args[OF g c that(1), of parse turn hn st] e s[OF that(3)]
      by simp
  qed
  have 6: "handle h parse turn tm i hn st = (Raise TypeError, st)"
    if "h = ProvideArgsHandler \<or> h = InvalidArgsHandler \<or> h = ArgsConfirmationHandler"
      and "(\<exists>n. v = VInt n) \<or> (\<exists>q. v = VNum q) \<or> (\<exists>b. v = VBool b)"
    using handle_args[OF g c that(1), of parse turn hn st] v that(2) by auto
  show ?thesis using 0 1 2 3 4 5 6 by blast
qed

subsection \<open>The code editor\<close>

lemma code_editor_controls:
  assumes "getitem (notebooks (world st)) n = Some cells" and "r \<noteq> VNone"
    and "execution_confirmed st"
  shows "controls_before_execution code_editor_tool [(''source'', VStr n), (''code_request'', r)] st
         = (Return [(''source'', VStr n), (''code_request'', r)], st)"
  using assms
  by (simp add: controls_before_execution_def and_then_def check_required_args_def
      check_validation_rules_def infer_args_def confirm_args_def code_editor_tool_def
      code_editor_schema_def is_required_def getitem_def rules_of_def inference_rule_of_def
      code_editor_source_rule_def notebook_by_name_def)

lemma code_editor_run_unconfirmed:
  assumes "getitem (notebooks (world st)) n = Some cells" and "r \<noteq> VNone"
    and "execution_confirmed st" and "\<not> output_confirmed st"
  shows "run code_editor_tool [(''source'', VStr n), (''code_request'', r)] st =
     (Interrupt \<lparr> interrupt_tool = ''code_editor_tool'', interrupt_type = CONFIRM_OUTPUT,
                  interrupt_reason = ''A user confirmation of the ouput is required.'',
                  interrupt_data = OutputToConfirm [(''source'', VStr n), (''code_request'', r)]
                    (VDict [(''notebook'', VStr n),
                            (''generated_code'', VStr (llm_code (world st) r (get_source_code cells)))]) \<rparr>,
      st\<lparr> output_confirmed := False,
          tool_output := VDict [(''notebook'', VStr n),
                            (''generated_code'', VStr (llm_code (world st) r (get_source_code cells)))] \<rparr>)"
  unfolding run_def code_editor_controls[OF assms(1-3)]
  using assms
  by (simp add: and_then_def code_editor_tool_def code_editor_execute_def getitem_def
      notebook_by_name_def confirm_ouputs_def)

lemma code_editor_run_confirmed:
  assumes "getitem (notebooks (world st)) n = Some cells" and "r \<noteq> VNone"
    and "execution_confirmed st" and "output_confirmed st"
    and "tool_output st = VDict out" and "getitem out ''generated_code'' = Some (VStr code)"
  shows "run code_editor_tool [(''source'', VStr n), (''code_request'', r)] st =
     (Interrupt \<lparr> interrupt_tool = ''code_editor_tool'', interrupt_type = CONFIRM_OUTPUT,
                  interrupt_reason = ''A user confirmation of the ouput is required.'',
                  interrupt_data = OutputToConfirm [(''source'', VStr n), (''code_request'', r)]
                    (VDict [(''notebook'', VStr n), (''generated_code'', VStr code)]) \<rparr>,
      st\<lparr> world := add_source_code (world st) n cells code,
          output_confirmed := False,
          tool_output := VDict [(''notebook'', VStr n), (''generated_code'', VStr code)] \<rparr>)"
  unfolding run_def code_editor_controls[OF assms(1-3)]
  using assms
  by (simp add: and_then_def code_editor_tool_def code_editor_execute_def getitem_def
      notebook_by_name_def confirm_ouputs_def)

lemma handle_confirm_output:
  assumes "h = CodeEditorOutputConfirmationHandler \<or> h = OutputConfirmationHandler"
    and "parse (llm_interpretation turn) = Some (VBool True)"
  shows "handle h parse turn tm
           \<lparr> interrupt_tool = tn, interrupt_type = ty, interrupt_reason = rs,
             interrupt_data = OutputToConfirm a (VDict out) \<rparr> hn st
         = (Return (resume_directive hn tm), st\<lparr> output_confirmed := True \<rparr>)"
  using assms by (auto simp: handle_def Let_def ask_llm_def generate_provided_args_def)

text \<open>
  Claim C1, as amended.  The code editor is the tool that raises \<open>CONFIRM_OUTPUT\<close>.  Its
  first pass stores the output and writes nothing.  When the human confirms, the
  strategy of the code editor sub-flow (like the base strategy) sets \<open>output_confirmed\<close>
  and routes back to the tool handler, and the second pass of \<open>run\<close> calls the
  execution body again.  The body does not ask the model again: whatever the model
  would answer by then (\<open>g\<close>), the body takes the code of the stored output, writes it
  into the notebook, once, and produces an output equal to the first one.
\<close>

theorem code_editor_reentry_runs_body_again:
  assumes nb: "getitem (notebooks w) n = Some cells" and r: "r \<noteq> VNone"
    and first: "run code_editor_tool [(''source'', VStr n), (''code_request'', r)] (code_editor_init w) = (Interrupt i, st1)"
    and hk: "h = CodeEditorOutputConfirmationHandler \<or> h = OutputConfirmationHandler"
    and conf: "parse (llm_interpretation turn) = Some (VBool True)"
    and h: "handle h parse turn tm i hn st1 = (d, st2)"
    and again: "run code_editor_tool [(''source'', VStr n), (''code_request'', r)]
                  (st2\<lparr> world := (world st2)\<lparr> llm_code := g \<rparr> \<rparr>) = (res, st3)"
  shows "interrupt_type i = CONFIRM_OUTPUT
       \<and> world st1 = w
       \<and> d = Return (resume_directive hn tm)
       \<and> st2 = st1\<lparr> output_confirmed := True \<rparr>
       \<and> tool_output st3 = tool_output st1
       \<and> tool_output st1 = VDict [(''notebook'', VStr n),
                             (''generated_code'', VStr (llm_code w r (get_source_code cells)))]
       \<and> world st3 = add_source_code (w\<lparr> llm_code := g \<rparr>) n cells (llm_code w r (get_source_code cells))"
proof -
  let ?st0 = "code_editor_init w"
  let ?out = "[(''notebook'', VStr n), (''generated_code'', VStr (llm_code w r (get_source_code cells)))]"
  let ?st2 = "st2\<lparr> world := (world st2)\<lparr> llm_code := g \<rparr> \<rparr>"
  have 0: "getitem (notebooks (world ?st0)) n = Some cells" "execution_confirmed ?st0" "\<not> output_confirmed ?st0"
    using nb by (simp_all add: code_editor_init_def)
  note r1 = code_editor_run_unconfirmed[OF 0(1) r 0(2) 0(3)]
  from first r1 have i: "i = \<lparr> interrupt_tool = ''code_editor_tool'', interrupt_type = CONFIRM_OUTPUT,
                  interrupt_reason = ''A user confirmation of the ouput is required.'',
                  interrupt_data = OutputToConfirm [(''source'', VStr n), (''code_request'', r)] (VDict ?out) \<rparr>"
    and st1: "st1 = ?st0\<lparr> output_confirmed := False, tool_output := VDict ?out \<rparr>"
    by (simp_all add: code_editor_init_def)
  have "handle h parse turn tm i hn st1 =
          (Return (resume_directive hn tm), st1\<lparr> output_confirmed := True \<rparr>)"
    unfolding i by (simp add: handle_confirm_output[OF hk] conf)
  with h have d: "d = Return (resume_directive hn tm)" and st2: "st2 = st1\<lparr> output_confirmed := True \<rparr>"
    by simp_all
  have 2: "getitem (notebooks (world ?st2)) n = Some cells" "execution_confirmed ?st2" "output_confirmed ?st2"
     "tool_output ?st2 = VDict ?out"
     "getitem ?out ''generated_code'' = Some (VStr (llm_code w r (get_source_code cells)))"
    using nb by (simp_all add: st2 st1 code_editor_init_def getitem_def)
  note r2 = code_editor_run_confirmed[OF 2(1) r 2(2) 2(3) 2(4) 2(5)]
  from again r2 have st3: "st3 = ?st2\<lparr> world := add_source_code (world ?st2) n cells (llm_code w r (get_source_code cells)),
          output_confirmed := False,
          tool_output := VDict ?out \<rparr>" by simp
  show ?thesis using i d st2 by (simp add: st3 st2 st1 code_editor_init_def)
qed

lemma editor_first_run:
  "run code_editor_tool editor_args (code_editor_init editor_world) =
     (Interrupt editor_interrupt,
      (code_editor_init editor_world)\<lparr> output_confirmed := False, tool_output := editor_output \<rparr>)"
proof -
  have 0: "getitem (notebooks (world (code_editor_init editor_world))) ''analysis.ipynb'' = Some [(''code'', ''import xarray'')]"
     "VStr ''plot the data'' \<noteq> VNone"
     "execution_confirmed (code_editor_init editor_world)" "\<not> output_confirmed (code_editor_init editor_world)"
    by (simp_all add: code_editor_init_def editor_world_def getitem_def)
  show ?thesis
    using code_editor_run_unconfirmed[OF 0]
    by (simp add: editor_args_def editor_interrupt_def editor_output_def code_editor_init_def editor_world_def)
qed

text \<open>
  The same on the example run, where the model would answer \<open>print(2)\<close> if it were
  asked again: the second pass adds one cell to the notebook, with the code of the
  first pass.
\<close>

theorem code_editor_reentry_runs_body_again_witness:
  "run code_editor_tool editor_args (code_editor_init editor_world) =
     (Interrupt editor_interrupt,
      (code_editor_init editor_world)\<lparr> output_confirmed := False, tool_output := editor_output \<rparr>)
   \<and> handle CodeEditorOutputConfirmationHandler (\<lambda>c. Some (VBool True))
        \<lparr> response = Some ''yes, fine'', llm_interpretation = ''True'', llm_update_inputs = [] \<rparr>
        editor_message editor_interrupt ''code_editor_tool_handler''
        ((code_editor_init editor_world)\<lparr> output_confirmed := False, tool_output := editor_output \<rparr>)
      = (Return (resume_directive ''code_editor_tool_handler'' editor_message),
         (code_editor_init editor_world)\<lparr> output_confirmed := True, tool_output := editor_output \<rparr>)
   \<and> tool_output (snd (run code_editor_tool editor_args
         ((code_editor_init (editor_world\<lparr> llm_code := (\<lambda>code_request source_code. ''print(2)'') \<rparr>))
            \<lparr> output_confirmed := True, tool_output := editor_output \<rparr>)))
      = editor_output
   \<and> notebooks (world (snd (run code_editor_tool editor_args
         ((code_editor_init (editor_world\<lparr> llm_code := (\<lambda>code_request source_code. ''print(2)'') \<rparr>))
            \<lparr> output_confirmed := True, tool_output := editor_output \<rparr>))))
      = [(''analysis.ipynb'', [(''code'', ''import xarray''), (''code'', ''print(1)'')])]"
proof -
  let ?g = "\<lambda>code_request source_code. ''print(2)''"
  let ?st0 = "code_editor_init editor_world"
  let ?st1 = "?st0\<lparr> output_confirmed := False, tool_output := editor_output \<rparr>"
  let ?turn = "\<lparr> response = Some ''yes, fine'', llm_interpretation = ''True'', llm_update_inputs = [] \<rparr>"
  let ?h = "handle CodeEditorOutputConfirmationHandler (\<lambda>c. Some (VBool True)) ?turn editor_message editor_interrupt
              ''code_editor_tool_handler'' ?st1"
  let ?st2 = "(snd ?h)\<lparr> world := (world (snd ?h))\<lparr> llm_code := ?g \<rparr> \<rparr>"
  let ?r = "run code_editor_tool editor_args ?st2"
  let ?st2' = "(code_editor_init (editor_world\<lparr> llm_code := ?g \<rparr>))\<lparr> output_confirmed := True, tool_output := editor_output \<rparr>"
  have nb: "getitem (notebooks editor_world) ''analysis.ipynb'' = Some [(''code'', ''import xarray'')]"
    by (simp add: editor_world_def getitem_def)
  have r: "VStr ''plot the data'' \<noteq> VNone" by simp
  have first: "run code_editor_tool [(''source'', VStr ''analysis.ipynb''), (''code_request'', VStr ''plot the data'')]
                 ?st0 = (Interrupt editor_interrupt, ?st1)"
    using editor_first_run by (simp add: editor_args_def)
  have hk: "CodeEditorOutputConfirmationHandler = CodeEditorOutputConfirmationHandler
            \<or> CodeEditorOutputConfirmationHandler = OutputConfirmationHandler" by simp
  have conf: "(\<lambda>c. Some (VBool True)) (llm_interpretation ?turn) = Some (VBool True)" by simp
  have h: "?h = (fst ?h, snd ?h)" by simp
  have again: "run code_editor_tool [(''source'', VStr ''analysis.ipynb''), (''code_request'', VStr ''plot the data'')]
                 ?st2 = (fst ?r, snd ?r)" by (simp add: editor_args_def)
  note t = code_editor_reentry_runs_body_again [OF nb r first hk conf h again]
  from t have a: "fst ?h = Return (resume_directive ''code_editor_tool_handler'' editor_message)"
    and b: "snd ?h = ?st1\<lparr> output_confirmed := True \<rparr>"
    and c: "tool_output (snd ?r) = tool_output ?st1"
    and d: "world (snd ?r) = add_source_code (editor_world\<lparr> llm_code := ?g \<rparr>) ''analysis.ipynb'' [(''code'', ''import xarray'')]
              (llm_code editor_world (VStr ''plot the data'') (get_source_code [(''code'', ''import xarray'')]))"
    by blast+
  have hh: "?h = (Return (resume_directive ''code_editor_tool_handler'' editor_message),
                  ?st0\<lparr> output_confirmed := True, tool_output := editor_output \<rparr>)"
    using a b by (simp add: prod_eq_iff)
  have e: "?st2 = ?st2'" unfolding b by (simp add: code_editor_init_def)
  have w: "notebooks (world (snd ?r)) = [(''analysis.ipynb'', [(''code'', ''import xarray''), (''code'', ''print(1)'')])]"
    unfolding d by (simp add: add_source_code_def editor_world_def startswith_def fence_def)
  show ?thesis using editor_first_run hh c w unfolding e by simp
qed

text \<open>
  Claim C1 as stated fails on the example run: after the confirmation, the second pass
  does not return the stored output, and the execution body runs again, as the changed
  notebook shows.
\<close>

theorem code_editor_reentry_does_not_return_stored_output:
  "fst (run code_editor_tool editor_args
         ((code_editor_init editor_world)\<lparr> output_confirmed := True, tool_output := editor_output \<rparr>))
     \<noteq> Return editor_output
   \<and> world (snd (run code_editor_tool editor_args
         ((code_editor_init editor_world)\<lparr> output_confirmed := True, tool_output := editor_output \<rparr>)))
     \<noteq> editor_world"
proof -
  let ?st2 = "(code_editor_init editor_world)\<lparr> output_confirmed := True, tool_output := editor_output \<rparr>"
  have 2: "getitem (notebooks (world ?st2)) ''analysis.ipynb'' = Some [(''code'', ''import xarray'')]"
     "VStr ''plot the data'' \<noteq> VNone"
     "execution_confirmed ?st2" "output_confirmed ?st2"
     "tool_output ?st2 = VDict [(''notebook'', VStr ''analysis.ipynb''), (''generated_code'', VStr ''print(1)'')]"
     "getitem [(''notebook'', VStr ''analysis.ipynb''), (''generated_code'', VStr ''print(1)'')] ''generated_code''
        = Some (VStr ''print(1)'')"
    by (simp_all add: code_editor_init_def editor_world_def editor_output_def getitem_def)
  show ?thesis
    using code_editor_run_confirmed[OF 2]
    by (simp add: editor_args_def add_source_code_def code_editor_init_def editor_world_def
                  startswith_def fence_def)
qed

subsection \<open>The strategies on the example run\<close>

text \<open>
  Claim C6 as stated fails: an abort at the output confirmation of the code editor
  leaves \<open>execution_confirmed\<close> true on the tool.
\<close>

theorem abort_leaves_execution_confirmed_set:
  "handle CodeEditorOutputConfirmationHandler (\<lambda>c. Some VNone)
        \<lparr> response = Some ''stop'', llm_interpretation = ''None'', llm_update_inputs = [] \<rparr>
        editor_message editor_interrupt ''code_editor_tool_handler''
        ((code_editor_init editor_world)\<lparr> output_confirmed := False, tool_output := editor_output \<rparr>)
    = (Return (exit_directive editor_message ''stop''),
       (code_editor_init editor_world)\<lparr> output_confirmed := False, tool_output := editor_output \<rparr>)
   \<and> execution_confirmed
        ((code_editor_init editor_world)\<lparr> output_confirmed := False, tool_output := editor_output \<rparr>)"
  by (simp add: handle_def Let_def ask_llm_def editor_interrupt_def editor_output_def
      response_text_def code_editor_init_def generate_provided_args_def)

text \<open>
  Claim C7 as stated fails: with an answer that cannot be evaluated, the output
  confirmation of the code editor ends the tool process instead of asking again, and
  the confirmation of arguments raises.
\<close>

theorem unparsable_confirmation_aborts:
  "handle CodeEditorOutputConfirmationHandler (\<lambda>c. None)
        \<lparr> response = Some ''hmm'', llm_interpretation = ''The user seems unsure.'', llm_update_inputs = [] \<rparr>
        editor_message editor_interrupt ''code_editor_tool_handler''
        ((code_editor_init editor_world)\<lparr> output_confirmed := False, tool_output := editor_output \<rparr>)
    = (Return (exit_directive editor_message ''hmm''),
       (code_editor_init editor_world)\<lparr> output_confirmed := False, tool_output := editor_output \<rparr>)
   \<and> goto (exit_directive editor_message ''hmm'') = END
   \<and> fst (handle ArgsConfirmationHandler (\<lambda>c. None)
        \<lparr> response = Some ''hmm'', llm_interpretation = ''The user seems unsure.'', llm_update_inputs = [] \<rparr>
        editor_message
        \<lparr> interrupt_tool = ''code_editor_tool'', interrupt_type = CONFIRM_ARGS,
          interrupt_reason = ''Please confirm the execution of the tool with the provided arguments.'',
          interrupt_data = ArgsToConfirm editor_args code_editor_schema \<rparr>
        ''code_editor_tool_handler'' (code_editor_init editor_world))
     = Raise ValueError"
  by (simp add: handle_def Let_def ask_llm_def editor_interrupt_def editor_output_def
      response_text_def exit_directive_def update_last_call_def last_item_def editor_message_def
      generate_provided_args_def)

text \<open>
  An abort while the code editor waits for a valid notebook name: the notebook of the
  pending call is not in the database.
\<close>

theorem abort_directive_cleans_conversation_state_witness:
  "\<exists>d content.
     handle InvalidArgsHandler (\<lambda>c. Some VNone)
        \<lparr> response = Some ''stop'', llm_interpretation = ''None'', llm_update_inputs = [] \<rparr>
        editor_message
        \<lparr> interrupt_tool = ''code_editor_tool'', interrupt_type = INVALID_ARGS,
          interrupt_reason = ''Invalid arguments: ['' @ [CHR 0x27] @ ''source'' @ [CHR 0x27] @ ''].'',
          interrupt_data = InvalidArgs
            [(''source'', FString ''Invalid source: {}. It should be the name of a notebook uploaded on databse.''
                           [VStr ''analysis.ipynb''])] code_editor_schema \<rparr>
        ''code_editor_tool_handler''
        ((code_editor_init (editor_world\<lparr> notebooks := [] \<rparr>))\<lparr> execution_confirmed := False \<rparr>)
       = (Return d, (code_editor_init (editor_world\<lparr> notebooks := [] \<rparr>))\<lparr> execution_confirmed := False \<rparr>)
     \<and> tool_calls editor_message \<noteq> []
     \<and> goto d = END
     \<and> upd_messages d = [RemoveMessage ''ai-1'', SystemMessage content]
     \<and> messages (apply_directive
          \<lparr> messages = [OtherMessage ''human-1'', AIMessage editor_message],
            node_params = [(''code_editor_tool_interrupt'',
               SuspendContext editor_message
                 (\<lparr> interrupt_tool = ''code_editor_tool'', interrupt_type = INVALID_ARGS,
          interrupt_reason = ''Invalid arguments: ['' @ [CHR 0x27] @ ''source'' @ [CHR 0x27] @ ''].'',
          interrupt_data = InvalidArgs
            [(''source'', FString ''Invalid source: {}. It should be the name of a notebook uploaded on databse.''
                           [VStr ''analysis.ipynb''])] code_editor_schema \<rparr>)
                 ''code_editor_tool_handler'')] \<rparr> d)
        = [OtherMessage ''human-1'', SystemMessage content]
     \<and> getitem (node_params (apply_directive
          \<lparr> messages = [OtherMessage ''human-1'', AIMessage editor_message],
            node_params = [(''code_editor_tool_interrupt'',
               SuspendContext editor_message
                 (\<lparr> interrupt_tool = ''code_editor_tool'', interrupt_type = INVALID_ARGS,
          interrupt_reason = ''Invalid arguments: ['' @ [CHR 0x27] @ ''source'' @ [CHR 0x27] @ ''].'',
          interrupt_data = InvalidArgs
            [(''source'', FString ''Invalid source: {}. It should be the name of a notebook uploaded on databse.''
                           [VStr ''analysis.ipynb''])] code_editor_schema \<rparr>)
                 ''code_editor_tool_handler'')] \<rparr> d))
          ''code_editor_tool_interrupt'' = None"
proof -
  let ?turn = "\<lparr> response = Some ''stop'', llm_interpretation = ''None'', llm_update_inputs = [] \<rparr>"
  let ?i = "\<lparr> interrupt_tool = ''code_editor_tool'', interrupt_type = INVALID_ARGS,
          interrupt_reason = ''Invalid arguments: ['' @ [CHR 0x27] @ ''source'' @ [CHR 0x27] @ ''].'',
          interrupt_data = InvalidArgs
            [(''source'', FString ''Invalid source: {}. It should be the name of a notebook uploaded on databse.''
                           [VStr ''analysis.ipynb''])] code_editor_schema \<rparr>"
  let ?state = "\<lparr> messages = [OtherMessage ''human-1'', AIMessage editor_message],
            node_params = [(''code_editor_tool_interrupt'',
               SuspendContext editor_message ?i ''code_editor_tool_handler'')] \<rparr>"
  have h1: "generate_interrupt_message InvalidArgsHandler (interrupt_data ?i) = None" by simp
  have h2: "InvalidArgsHandler = InvalidArgsHandler \<longrightarrow> tool_calls editor_message \<noteq> []"
    by (simp add: editor_message_def)
  have h3: "ask_llm (\<lambda>c. Some VNone) (llm_interpretation ?turn) True = VNone" by (simp add: ask_llm_def)
  have h4: "''code_editor_tool_interrupt'' \<noteq> CHATBOT_UPDATE_MESSAGES" by (simp add: CHATBOT_UPDATE_MESSAGES_def)
  from abort_directive_cleans_conversation_state [OF h1 h2 h3 h4, of "''code_editor_tool_handler''"
        "(code_editor_init (editor_world\<lparr> notebooks := [] \<rparr>))\<lparr> execution_confirmed := False \<rparr>" ?state]
  show ?thesis by (simp add: editor_message_def)
qed

text \<open>
  An answer in prose, at an output confirmation and at a request for arguments, and an
  answer that evaluates to a number, at a confirmation of arguments.
\<close>

theorem unparsable_reply_aborts_or_raises_witness:
  "ask_llm (\<lambda>c. None) ''The user seems unsure.'' True = VStr ''The user seems unsure.''
   \<and> handle CodeEditorOutputConfirmationHandler (\<lambda>c. None)
        \<lparr> response = Some ''hmm'', llm_interpretation = ''The user seems unsure.'', llm_update_inputs = [] \<rparr>
        editor_message editor_interrupt ''code_editor_tool_handler'' (code_editor_init editor_world)
      = (Return (exit_directive editor_message ''hmm''), code_editor_init editor_world)
   \<and> goto (exit_directive editor_message ''hmm'') = END
   \<and> handle ProvideArgsHandler (\<lambda>c. None)
        \<lparr> response = Some ''hmm'', llm_interpretation = ''The user seems unsure.'', llm_update_inputs = [] \<rparr>
        editor_message
        \<lparr> interrupt_tool = ''code_editor_tool'', interrupt_type = PROVIDE_ARGS,
          interrupt_reason = [], interrupt_data = MissingArgs [''code_request''] code_editor_schema \<rparr>
        ''code_editor_tool_handler'' (code_editor_init editor_world)
      = (Raise ValueError, code_editor_init editor_world)
   \<and> handle ArgsConfirmationHandler (\<lambda>c. Some (VInt 5))
        \<lparr> response = Some ''five'', llm_interpretation = ''5'', llm_update_inputs = [] \<rparr>
        editor_message
        \<lparr> interrupt_tool = ''code_editor_tool'', interrupt_type = CONFIRM_ARGS,
          interrupt_reason = [], interrupt_data = ArgsToConfirm editor_args code_editor_schema \<rparr>
        ''code_editor_tool_handler'' (code_editor_init editor_world)
      = (Raise TypeError, code_editor_init editor_world)"
proof -
  let ?turn = "\<lparr> response = Some ''hmm'', llm_interpretation = ''The user seems unsure.'', llm_update_inputs = [] \<rparr>"
  let ?turn5 = "\<lparr> response = Some ''five'', llm_interpretation = ''5'', llm_update_inputs = [] \<rparr>"
  let ?i = "\<lparr> interrupt_tool = ''code_editor_tool'', interrupt_type = PROVIDE_ARGS,
          interrupt_reason = [], interrupt_data = MissingArgs [''code_request''] code_editor_schema \<rparr>"
  let ?j = "\<lparr> interrupt_tool = ''code_editor_tool'', interrupt_type = CONFIRM_ARGS,
          interrupt_reason = [], interrupt_data = ArgsToConfirm editor_args code_editor_schema \<rparr>"
  let ?hn = "''code_editor_tool_handler''"
  let ?st = "code_editor_init editor_world"
  have g1: "generate_interrupt_message CodeEditorOutputConfirmationHandler (interrupt_data editor_interrupt) = None"
    by (simp add: editor_interrupt_def editor_output_def)
  have g2: "generate_interrupt_message ProvideArgsHandler (interrupt_data ?i) = None" by simp
  have g3: "generate_interrupt_message ArgsConfirmationHandler (interrupt_data ?j) = None" by simp
  have c: "tool_calls editor_message \<noteq> []" by (simp add: editor_message_def)
  have v: "VStr ''The user seems unsure.'' = ask_llm (\<lambda>c. None) (llm_interpretation ?turn) True"
    by (simp add: ask_llm_def)
  have v5: "VInt 5 = ask_llm (\<lambda>c. Some (VInt 5)) (llm_interpretation ?turn5) True"
    by (simp add: ask_llm_def)
  have r: "response_text ?turn = ''hmm''" by (simp add: response_text_def)
  note a = unparsable_reply_aborts_or_raises [OF g1 c v, of ?hn ?st]
  note b = unparsable_reply_aborts_or_raises [OF g2 c v, of ?hn ?st]
  note d = unparsable_reply_aborts_or_raises [OF g3 c v5, of ?hn ?st]
  have 1: "ask_llm (\<lambda>c. None) ''The user seems unsure.'' True = VStr ''The user seems unsure.''"
    by (simp add: ask_llm_def)
  have 2: "handle CodeEditorOutputConfirmationHandler (\<lambda>c. None) ?turn editor_message editor_interrupt ?hn ?st
             = (Return (exit_directive editor_message ''hmm''), ?st)"
    using a r by simp
  have 3: "goto (exit_directive editor_message ''hmm'') = END"
    using a 2 by (simp add: exit_directive_def Let_def)
  have 4: "handle ProvideArgsHandler (\<lambda>c. None) ?turn editor_message ?i ?hn ?st = (Raise ValueError, ?st)"
    using b by simp
  have 5: "handle ArgsConfirmationHandler (\<lambda>c. Some (VInt 5)) ?turn5 editor_message ?j ?hn ?st
             = (Raise TypeError, ?st)"
    using d by simp
  show ?thesis using 1 2 3 4 5 by simp
qed


subsection \<open>The historic notebook tool\<close>

lemmas run_eval =
  run_def controls_before_execution_def and_then_def check_required_args_def
  check_validation_rules_def infer_args_def confirm_args_def confirm_ouputs_def
  is_required_def getitem_def rules_of_def inference_rule_of_def

lemmas historic_eval =
  cds_historic_notebook_tool_def historic_schema_def historic_validation_rules_def
  historic_inference_rules_def historic_tool_args_def
  historic_dataset_rule_def historic_variables_rule_def area_rule_def time_format_rule_def
  start_time_past_rule_def end_time_after_rule_def end_time_past_rule_def
  arg_def dataset_from_str_def variable_from_str_def unknown_variables_def parse_time_def
  dash_to_underscore_def underscore_to_dash_def
  reanalysis_era5_land_def reanalysis_era5_land_monthly_means_def total_precipitation_def
  temperature_def
  bind_e_def lift_def infer_historic_dataset_def alias_to_enum_def infer_historic_variables_def
  floor_decimals_def ceil_decimals_def item_def round_bounding_box_def infer_area_def
  text_less_def infer_start_time_def infer_end_time_def join_values_def icisk_names_def
  infer_file_name_def nb_values_def historic_execute_def
  InputHistoricCDSDataset_def InputHistoricVariable_def endswith_def

lemmas historic_example =
  historic_call_def italy_box_def historic_confirmed_def cds_historic_init_def
  historic_example_world_def


text \<open>
  Two rules of one argument that both reject: the second reason replaces the first in
  \<open>invalid_args\<close>.
\<close>

lemma apply_rules_later_reason_overwrites:
  assumes "r1 st tool_args = Inr (Some a)" and "r2 st tool_args = Inr (Some b)"
  shows "apply_rules [r1, r2] st tool_args k [] = Inr [(k, b)]"
  using assms by simp

text \<open>
  Claim C3: when several rules of one argument reject, the first rule's reason is
  recorded and the later rules of that argument are not consulted.

  The code does consult them.  For a start time that is not of the form YYYY-MM-DD the
  first rule of \<open>start_time\<close> returns its reason; the loop goes on to the second rule,
  which calls \<open>strptime\<close> on the same text, and the \<open>ValueError\<close> leaves
  \<open>check_validation_rules\<close>: no \<open>INVALID_ARGS\<close> interrupt is raised.
\<close>

theorem historic_malformed_start_time_reaches_second_rule:
  "\<exists>r1 r2 reason.
      rules_of (args_validation_rules cds_historic_notebook_tool) ''start_time'' = [r1, r2]
    \<and> r1 historic_confirmed (historic_call italy_box (VStr ''15/01/2024'')) = Inr (Some reason)
    \<and> r2 historic_confirmed (historic_call italy_box (VStr ''15/01/2024'')) = Inl ValueError
    \<and> check_validation_rules cds_historic_notebook_tool
         (historic_call italy_box (VStr ''15/01/2024'')) historic_confirmed
       = (Raise ValueError, historic_confirmed)"
  by (simp add: run_eval historic_eval historic_example)





subsection \<open>Validation and inference of the historic notebook tool\<close>

































lemma infer_end_time_args:
  "infer_end_time (historic_tool_args d vs a s e z n) st =
     lift (if e = VNone then Inr (VStr (default_end (world st)))
           else if s = VNone then Inr e
           else bind_e (text_less e s) (\<lambda>earlier. Inr (if earlier then s else e))) st"
  by (simp add: infer_end_time_def arg_def getitem_def historic_tool_args_def bind_e_def)




lemma lift_Inr: "lift (Inr x) st = (Return x, st)"
  by (simp add: lift_def)


lemma text_less_strings: "text_less (VStr x) (VStr y) = Inr (x < y)"
  by (simp add: text_less_def)





lemma infer_end_time_only:
  "infer_end_time (historic_tool_args d vs a VNone (VStr y) z n) st = (Return (VStr y), st)"
  by (simp add: infer_end_time_args lift_def)















subsection \<open>A second pass of the inference\<close>

























end
